theory Spec2Isabelle
  imports Main "HOL-Library.AList" "HOL-Library.Sublist"
begin

section \<open>Data: JSON documents, exceptions, the file system\<close>

text \<open>
  Everything \<^verbatim>\<open>webapp.py\<close> persists is a JSON document written by \<^verbatim>\<open>json.dump\<close> and read
  back by \<^verbatim>\<open>json.load\<close>. A Python dict keeps insertion order, and assigning to an existing
  key keeps the key's position: an association list updated by \<open>AList.update\<close>.
\<close>

datatype json =
  JNull
  | JBool bool
  | JNum int
  | JStr string
  | JList "json list"
  | JDict "(string \<times> json) list"

text \<open>
  The exceptions the modelled code can raise. \<open>Raised msg\<close> is an exception of a
  collaborator (PyGithub, GitPython, \<^verbatim>\<open>git_analysis\<close>), with \<^verbatim>\<open>str(err) = msg\<close>.
  \<open>WouldBlock\<close> is not an exception: it stands for \<^verbatim>\<open>future.result()\<close> waiting on a job that
  is still running.
\<close>

datatype error =
  JSONDecodeError
  | UnicodeDecodeError
  | IndexError
  | KeyError
  | TypeError
  | IsADirectoryError
  | FileNotFoundError
  | WouldBlock
  | Raised string

text \<open>
  A path names nothing, a directory, or a file. Reading a file with \<^verbatim>\<open>json.load\<close> either
  parses its bytes into a document or raises: a file is the document it parses to, or
  \<open>Unreadable e\<close> with the exception \<open>e\<close> that reading it raises (\<open>JSONDecodeError\<close> for text that
  is not JSON, \<open>UnicodeDecodeError\<close> for bytes that are not text).
\<close>

datatype content = Doc json | Unreadable error

datatype node = File content | Dir

text \<open>
  The calls made to the collaborators. The world keeps them in the order they are made, each
  with the exception it raised, if any: a record of what ran, which the code never reads.
\<close>

datatype call =
  GetRepo "string option" string
  | RawData
  | GetIssues string int
  | GetStargazers
  | OpenRepo string
  | FetchRemotes
  | CloneFrom string string
  | Commits

record world =
  nodes :: "string \<rightharpoonup> node"
  calls :: "(call \<times> error option) list"
  ticks :: nat

text \<open>
  The objects of the collaborators, as records of what their methods return.
  \<open>remote\<close> is PyGithub's \<^verbatim>\<open>Repository\<close>; \<open>get_issues\<close> and \<open>get_stargazers_with_dates\<close> give the
  \<^verbatim>\<open>raw_data\<close> of the items the paginated list yields, or the exception raised while it is
  iterated. \<open>local_repo\<close> is GitPython's \<^verbatim>\<open>Repo\<close>: the outcome of \<^verbatim>\<open>remote.fetch()\<close> for each
  of its remotes.
\<close>

record remote =
  raw_data :: "error + json"
  get_issues :: "string \<Rightarrow> int \<Rightarrow> error + json list"
  get_stargazers_with_dates :: "error + json list"
  clone_url :: string

record local_repo =
  working_dir :: string
  remotes :: "(error + unit) list"

text \<open>
  The environment of a run: the clock (\<open>utcnow env n\<close> is the \<open>n\<close>-th reading of
  \<^verbatim>\<open>datetime.datetime.utcnow()\<close>, in seconds), \<^verbatim>\<open>strftime\<close>, Python's rendering of an
  exception, and the collaborators.
\<close>

record env =
  utcnow :: "nat \<Rightarrow> int"
  strftime :: "string \<Rightarrow> int \<Rightarrow> string"
  str_exc :: "error \<Rightarrow> string"
  format_exc :: "error \<Rightarrow> string"
  get_repo :: "string option \<Rightarrow> string \<Rightarrow> error + remote"
  open_repo :: "string \<Rightarrow> error + local_repo"
  clone_from :: "string \<Rightarrow> string \<Rightarrow> error + local_repo"
  commits :: "local_repo \<Rightarrow> error + json"

section \<open>Paths\<close>

text \<open>\<^verbatim>\<open>os.path.join(a, b)\<close> and \<^verbatim>\<open>os.path.dirname(p)\<close> of \<^verbatim>\<open>posixpath\<close>.\<close>

definition path_join :: "string \<Rightarrow> string \<Rightarrow> string" where
  "path_join a b =
     (if b \<noteq> [] \<and> hd b = CHR ''/'' then b
      else if a = [] \<or> last a = CHR ''/'' then a @ b
      else a @ ''/'' @ b)"

definition rstrip_slash :: "string \<Rightarrow> string" where
  "rstrip_slash s = rev (dropWhile (\<lambda>c. c = CHR ''/'') (rev s))"

definition dirname :: "string \<Rightarrow> string" where
  "dirname p =
     (let head = rev (dropWhile (\<lambda>c. c \<noteq> CHR ''/'') (rev p))
      in if head \<noteq> [] \<and> filter (\<lambda>c. c \<noteq> CHR ''/'') head \<noteq> [] then rstrip_slash head else head)"

text \<open>The components of a path: the text between its slashes.\<close>

fun split_path :: "string \<Rightarrow> string list" where
  "split_path [] = [[]]"
| "split_path (c # cs) =
     (if c = CHR ''/'' then [] # split_path cs
      else (case split_path cs of [] \<Rightarrow> [[c]] | x # xs \<Rightarrow> (c # x) # xs))"

text \<open>
  The place a path leads to: its components, behind the root for an absolute path. An empty
  component and \<^verbatim>\<open>.\<close> lead nowhere else, so \<^verbatim>\<open>a//b\<close>, \<^verbatim>\<open>a/./b\<close> and \<^verbatim>\<open>a/b/\<close> are spellings of the
  place \<^verbatim>\<open>a/b\<close>. (A component \<^verbatim>\<open>..\<close> is kept: where it leads depends on the directories that
  exist.)
\<close>

definition named :: "string \<Rightarrow> bool" where
  "named c = (c \<noteq> [] \<and> c \<noteq> ''.'')"

definition locate :: "string \<Rightarrow> string list" where
  "locate p =
     (if p \<noteq> [] \<and> hd p = CHR ''/'' then [''/''] else []) @ filter named (split_path p)"

definition status_file :: "string \<Rightarrow> string" where
  "status_file uuid = path_join ''ephemeral_storage'' (uuid @ ''.status.json'')"

definition github_cache :: "string \<Rightarrow> string" where
  "github_cache uuid = path_join ''ephemeral_storage'' (uuid @ ''.github.json'')"

definition computed_cache :: "string \<Rightarrow> string" where
  "computed_cache uuid = path_join ''ephemeral_storage'' (uuid @ ''_computed.json'')"

definition target :: "string \<Rightarrow> string" where
  "target uuid = path_join ''ephemeral_storage'' uuid"

section \<open>Effects\<close>

text \<open>
  A statement of the pipeline takes the world and returns the world it leaves, with its
  value or the exception it raised; \<open>bind\<close> is sequencing, where an exception ends the run.
\<close>

type_synonym 'a run = "world \<Rightarrow> (error + 'a) \<times> world"

definition ret :: "'a \<Rightarrow> 'a run" where
  "ret x w = (Inr x, w)"

definition lift :: "error + 'a \<Rightarrow> 'a run" where
  "lift r w = (r, w)"

definition bind :: "'a run \<Rightarrow> ('a \<Rightarrow> 'b run) \<Rightarrow> 'b run" where
  "bind m f w = (case m w of (Inl e, w') \<Rightarrow> (Inl e, w') | (Inr x, w') \<Rightarrow> f x w')"

definition failure :: "error + 'a \<Rightarrow> error option" where
  "failure r = (case r of Inl e \<Rightarrow> Some e | Inr _ \<Rightarrow> None)"

definition invoke :: "call \<Rightarrow> error + 'a \<Rightarrow> 'a run" where
  "invoke c r w = (r, w\<lparr>calls := calls w @ [(c, failure r)]\<rparr>)"

definition tick :: "world \<Rightarrow> world" where
  "tick w = w\<lparr>ticks := Suc (ticks w)\<rparr>"

definition now :: "env \<Rightarrow> int run" where
  "now env w = (Inr (utcnow env (ticks w)), tick w)"

definition path_exists :: "world \<Rightarrow> string \<Rightarrow> bool" where
  "path_exists w p = (nodes w p \<noteq> None)"

definition exists_run :: "string \<Rightarrow> bool run" where
  "exists_run p w = (Inr (path_exists w p), w)"

text \<open>\<^verbatim>\<open>with open(p, 'r') as fh: json.load(fh)\<close>\<close>

definition json_load :: "string \<Rightarrow> json run" where
  "json_load p w =
     (case nodes w p of
        None \<Rightarrow> (Inl FileNotFoundError, w)
      | Some Dir \<Rightarrow> (Inl IsADirectoryError, w)
      | Some (File (Unreadable e)) \<Rightarrow> (Inl e, w)
      | Some (File (Doc j)) \<Rightarrow> (Inr j, w))"

text \<open>
  \<^verbatim>\<open>with open(p, 'w') as fh: json.dump(j, fh)\<close>. What is dumped is a JSON document, so the dump
  itself does not raise; opening a directory for writing does. The directory the file goes to
  is taken to be there: the pipeline writes into the directory that lines 85 to 88 make.
\<close>

definition json_dump :: "json \<Rightarrow> string \<Rightarrow> unit run" where
  "json_dump j p w =
     (case nodes w p of
        Some Dir \<Rightarrow> (Inl IsADirectoryError, w)
      | _ \<Rightarrow> (Inr (), w\<lparr>nodes := (nodes w)(p \<mapsto> File (Doc j))\<rparr>))"

text \<open>
  \<^verbatim>\<open>if not os.path.exists(dirname): os.makedirs(dirname)\<close>, where the directory can be made.
  \<^verbatim>\<open>os.makedirs\<close> makes the directory and every directory above it that is missing, and a
  directory is there under every spelling of its path: after the call each path that leads to
  the place of \<open>d\<close>, or to a place above it, and named nothing before names a directory.
\<close>

definition makedirs :: "string \<Rightarrow> unit run" where
  "makedirs d w =
     (if \<not> path_exists w d
      then (Inr (),
            w\<lparr>nodes := (\<lambda>q. if nodes w q = None \<and> locate q \<noteq> [] \<and> prefix (locate q) (locate d)
                             then Some Dir else nodes w q)\<rparr>)
      else (Inr (), w))"

text \<open>\<^verbatim>\<open>d[k]\<close> and \<^verbatim>\<open>d[k] = v\<close> with a string key: only a dict accepts them.\<close>

definition getitem :: "json \<Rightarrow> string \<Rightarrow> error + json" where
  "getitem j k =
     (case j of
        JDict d \<Rightarrow> (case map_of d k of None \<Rightarrow> Inl KeyError | Some v \<Rightarrow> Inr v)
      | _ \<Rightarrow> Inl TypeError)"

definition setitem :: "json \<Rightarrow> string \<Rightarrow> json \<Rightarrow> error + json" where
  "setitem j k v =
     (case j of
        JDict d \<Rightarrow> Inr (JDict (AList.update k v d))
      | _ \<Rightarrow> Inl TypeError)"

section \<open>The status log: \<^verbatim>\<open>update_status\<close>\<close>

text \<open>
  \<^verbatim>\<open>existing_status[-1]['end'] = t\<close> on the document \<^verbatim>\<open>json.load\<close> returned. The code appends to
  \<^verbatim>\<open>existing_status\<close> afterwards, so what is kept is the list.
\<close>

definition close_last :: "json \<Rightarrow> json \<Rightarrow> error + json list" where
  "close_last existing_status t =
     (case existing_status of
        JList xs \<Rightarrow>
          (if xs = [] then Inl IndexError
           else (case last xs of
                   JDict d \<Rightarrow> Inr (butlast xs @ [JDict (AList.update ''end'' t d)])
                 | _ \<Rightarrow> Inl TypeError))
      | JDict d \<Rightarrow> Inl KeyError
      | JStr s \<Rightarrow> (if s = [] then Inl IndexError else Inl TypeError)
      | _ \<Rightarrow> Inl TypeError)"

definition iso_format :: string where
  "iso_format = ''%Y-%m-%dT%H:%M:%SZ''"

definition read_existing :: "env \<Rightarrow> string \<Rightarrow> bool \<Rightarrow> json list run" where
  "read_existing env uuid clear =
     bind (exists_run (status_file uuid)) (\<lambda>present.
       if \<not> present \<or> clear then ret []
       else
         bind (json_load (status_file uuid)) (\<lambda>existing_status.
         bind (now env) (\<lambda>t.
         lift (close_last existing_status (JStr (strftime env iso_format t))))))"

definition append_message :: "env \<Rightarrow> string option \<Rightarrow> json list \<Rightarrow> json list run" where
  "append_message env message existing_status =
     (case message of
        None \<Rightarrow> ret existing_status
      | Some m \<Rightarrow>
          bind (now env) (\<lambda>t.
          ret (existing_status @
                 [JDict [(''start'', JStr (strftime env iso_format t)), (''status'', JStr m)]])))"

definition update_status :: "env \<Rightarrow> string \<Rightarrow> string option \<Rightarrow> bool \<Rightarrow> unit run" where
  "update_status env uuid message clear =
     bind (read_existing env uuid clear) (\<lambda>existing_status.
     bind (append_message env message existing_status) (\<lambda>existing_status.
     json_dump (JList existing_status) (status_file uuid)))"

section \<open>The pipeline: \<^verbatim>\<open>fetch_repo_data\<close>\<close>

text \<open>
  One entry of \<^verbatim>\<open>stargazer_data\<close>: the dict display evaluates
  \<^verbatim>\<open>stargazer.raw_data['starred_at']\<close> first, then \<^verbatim>\<open>stargazer.raw_data['user']['login']\<close>.
\<close>

definition stargazer_entry :: "json \<Rightarrow> error + json" where
  "stargazer_entry raw =
     (case getitem raw ''starred_at'' of
        Inl e \<Rightarrow> Inl e
      | Inr starred_at \<Rightarrow>
          (case getitem raw ''user'' of
             Inl e \<Rightarrow> Inl e
           | Inr user \<Rightarrow>
               (case getitem user ''login'' of
                  Inl e \<Rightarrow> Inl e
                | Inr login \<Rightarrow> Inr (JDict [(''starred_at'', starred_at), (''login'', login)]))))"

fun stargazer_data :: "json list \<Rightarrow> error + json list" where
  "stargazer_data [] = Inr []"
| "stargazer_data (s # ss) =
     (case stargazer_entry s of
        Inl e \<Rightarrow> Inl e
      | Inr x \<Rightarrow> (case stargazer_data ss of Inl e \<Rightarrow> Inl e | Inr xs \<Rightarrow> Inr (x # xs)))"

text \<open>Lines 113 to 115: the paginated list is iterated by the list comprehension.\<close>

definition stargazers_of :: "remote \<Rightarrow> error + json list" where
  "stargazers_of repo =
     (case get_stargazers_with_dates repo of
        Inl e \<Rightarrow> Inl e
      | Inr stargazers \<Rightarrow> stargazer_data stargazers)"

text \<open>\<^verbatim>\<open>for remote in repo.remotes: remote.fetch()\<close>\<close>

fun fetch_all :: "(error + unit) list \<Rightarrow> error + unit" where
  "fetch_all [] = Inr ()"
| "fetch_all (r # rs) = (case r of Inl e \<Rightarrow> Inl e | Inr _ \<Rightarrow> fetch_all rs)"

definition limit :: nat where
  "limit = 5"

definition days :: "int \<Rightarrow> int" where
  "days n = n * 86400"

text \<open>The \<^verbatim>\<open>else\<close> branch of \<^verbatim>\<open>if os.path.exists(cache)\<close>: lines 100 to 119.\<close>

definition produce_report :: "env \<Rightarrow> string \<Rightarrow> remote \<Rightarrow> json run" where
  "produce_report env uuid repo =
     bind (update_status env uuid (Some ''Fetching GitHub API data'') False) (\<lambda>_.
     bind (invoke RawData (raw_data repo)) (\<lambda>raw.
     bind (update_status env uuid (Some ''Fetching GitHub issues data'') False) (\<lambda>_.
     bind (now env) (\<lambda>t.
     bind (invoke (GetIssues ''all'' (t - days 30)) (get_issues repo ''all'' (t - days 30))) (\<lambda>issues.
     bind (ret (take limit issues)) (\<lambda>issues_raw.
     bind (update_status env uuid (Some ''Fetching GitHub stargazer data'') False) (\<lambda>_.
     bind (invoke GetStargazers (stargazers_of repo)) (\<lambda>stargazer_data.
     bind (ret (JDict [(''repo'', raw), (''issues'', JList issues_raw),
                       (''stargazers'', JList stargazer_data)])) (\<lambda>report.
     bind (json_dump report (github_cache uuid)) (\<lambda>_.
     ret report))))))))))"

text \<open>Lines 94 to 119: the GitHub tier.\<close>

definition github_tier :: "env \<Rightarrow> string \<Rightarrow> remote \<Rightarrow> json run" where
  "github_tier env uuid repo =
     bind (exists_run (github_cache uuid)) (\<lambda>cached.
       if cached then
         bind (update_status env uuid (Some ''Load GitHub API data from ephemeral cache'') False) (\<lambda>_.
         json_load (github_cache uuid))
       else produce_report env uuid repo)"

text \<open>
  Lines 123 to 131: the local mirror. A successful \<^verbatim>\<open>git.Repo.clone_from\<close> leaves the
  working copy at \<open>target\<close>; a failed one is taken to leave nothing there.
\<close>

definition clone_run :: "env \<Rightarrow> string \<Rightarrow> string \<Rightarrow> local_repo run" where
  "clone_run env url dir w =
     (case clone_from env url dir of
        Inl e \<Rightarrow> (Inl e, w\<lparr>calls := calls w @ [(CloneFrom url dir, Some e)]\<rparr>)
      | Inr r \<Rightarrow> (Inr r, w\<lparr>calls := calls w @ [(CloneFrom url dir, None)],
                            nodes := (nodes w)(dir \<mapsto> Dir)\<rparr>))"

definition mirror :: "env \<Rightarrow> string \<Rightarrow> remote \<Rightarrow> local_repo run" where
  "mirror env uuid repo =
     bind (exists_run (target uuid)) (\<lambda>present.
       if present then
         bind (update_status env uuid (Some ''Fetching remotes from cached clone'') False) (\<lambda>_.
         bind (invoke (OpenRepo (target uuid)) (open_repo env (target uuid))) (\<lambda>repo.
         bind (invoke FetchRemotes (fetch_all (remotes repo))) (\<lambda>_.
         ret repo)))
       else
         bind (update_status env uuid (Some ''Cloning repo'') False) (\<lambda>_.
         clone_run env (clone_url repo) (target uuid)))"

text \<open>Lines 121 to 140: the analysis tier.\<close>

definition computed_tier :: "env \<Rightarrow> string \<Rightarrow> remote \<Rightarrow> json run" where
  "computed_tier env uuid repo =
     bind (exists_run (computed_cache uuid)) (\<lambda>cached.
       if \<not> cached then
         bind (mirror env uuid repo) (\<lambda>repo.
         bind (update_status env uuid (Some ''Analysing commits'') False) (\<lambda>_.
         bind (invoke Commits (commits env repo)) (\<lambda>repo_data.
         bind (json_dump repo_data (computed_cache uuid)) (\<lambda>_.
         ret repo_data))))
       else
         bind (update_status env uuid (Some ''Load commit from ephemeral cache'') False) (\<lambda>_.
         json_load (computed_cache uuid)))"

definition fetch_repo_data :: "env \<Rightarrow> string \<Rightarrow> string option \<Rightarrow> json run" where
  "fetch_repo_data env uuid token =
     bind (makedirs (dirname (github_cache uuid))) (\<lambda>_.
     bind (update_status env uuid (Some ''Initial validation of repo'') True) (\<lambda>_.
     bind (invoke (GetRepo token uuid) (get_repo env token uuid)) (\<lambda>repo.
     bind (github_tier env uuid repo) (\<lambda>report.
     bind (computed_tier env uuid repo) (\<lambda>repo_data.
     bind (update_status env uuid None False) (\<lambda>_.
     lift (setitem repo_data ''github'' report)))))))"

section \<open>The web handlers\<close>

text \<open>
  A \<^verbatim>\<open>concurrent.futures.Future\<close> as the handlers see it: the arguments it was submitted
  with, the \<^verbatim>\<open>_start_time\<close> the handler attaches, and its outcome once the worker has
  finished (the returned payload or the raised exception).
\<close>

record future =
  fut_args :: "string \<times> string option"
  start_time :: int
  outcome :: "(error + json) option"

text \<open>
  The application: \<^verbatim>\<open>settings['datastore']\<close>, the calls \<^verbatim>\<open>settings['executor']\<close> was given
  by \<^verbatim>\<open>submit\<close>, and the file system and clock shared with the workers.
\<close>

record server =
  datastore :: "string \<rightharpoonup> future"
  executor :: "(string \<times> string option) list"
  sys :: world

text \<open>What a request handler has sent: \<open>body\<close> is the chunk given to \<^verbatim>\<open>self.finish\<close>.\<close>

record handler =
  status_code :: int
  headers :: "(string \<times> string) list"
  body :: "json option"

definition set_status :: "int \<Rightarrow> handler \<Rightarrow> handler" where
  "set_status n h = h\<lparr>status_code := n\<rparr>"

definition set_header :: "string \<Rightarrow> string \<Rightarrow> handler \<Rightarrow> handler" where
  "set_header k v h = h\<lparr>headers := AList.update k v (headers h)\<rparr>"

definition finish :: "json \<Rightarrow> handler \<Rightarrow> handler" where
  "finish chunk h = h\<lparr>body := Some chunk\<rparr>"

definition fut_done :: "future \<Rightarrow> bool" where
  "fut_done f = (outcome f \<noteq> None)"

text \<open>\<^verbatim>\<open>'{}'.format(n)\<close> for an integer.\<close>

fun digits :: "nat \<Rightarrow> string" where
  "digits n = (if n < 10 then [char_of (48 + n)] else digits (n div 10) @ [char_of (48 + n mod 10)])"

declare digits.simps [simp del]

definition format_int :: "int \<Rightarrow> string" where
  "format_int i = (if i < 0 then ''-'' @ digits (nat (- i)) else digits (nat i))"

text \<open>
  \<^verbatim>\<open>pretty_timedelta\<close>: a \<^verbatim>\<open>timedelta\<close> is normalised to \<^verbatim>\<open>days\<close> (floor) and
  \<^verbatim>\<open>0 <= seconds < 86400\<close>.
\<close>

definition pretty_timedelta :: "env \<Rightarrow> int \<Rightarrow> int \<Rightarrow> string" where
  "pretty_timedelta env datetime from_date =
     (let diff = from_date - datetime; d = diff div 86400; s = diff mod 86400
      in if d > 7 \<or> d < 0 then strftime env ''%d %b %y'' datetime
         else if d = 1 then ''1 day ago''
         else if d > 1 then format_int d @ '' days ago''
         else if s \<le> 1 then ''just now''
         else if s < 120 then format_int s @ '' seconds ago''
         else if s < 3600 then format_int (s div 60) @ '' minutes ago''
         else if s < 7200 then ''1 hour ago''
         else format_int (s div 3600) @ '' hours ago'')"

text \<open>Lines 368 to 373: the status log as the handler reads it.\<close>

definition read_status :: "world \<Rightarrow> string \<Rightarrow> error + json" where
  "read_status w uuid =
     (if \<not> path_exists w (status_file uuid) then Inr (JDict [])
      else fst (json_load (status_file uuid) w))"

text \<open>
  \<^verbatim>\<open>APIDataAvailableHandler.availablitiy\<close>, from line 353 (the block above it is under
  \<^verbatim>\<open>if False:\<close> and never runs).
\<close>

definition availablitiy ::
  "env \<Rightarrow> string \<Rightarrow> string option \<Rightarrow> server \<times> handler \<Rightarrow> (error + json) \<times> server \<times> handler" where
  "availablitiy env uuid token sh =
     (case sh of (s, h) \<Rightarrow>
        (case datastore s uuid of
           None \<Rightarrow>
             (let future = \<lparr>fut_args = (uuid, token),
                            start_time = utcnow env (ticks (sys s)), outcome = None\<rparr>
              in (Inr (JDict [(''status'', JNum 202),
                              (''message'', JStr ''Job submitted and is processing.''),
                              (''status_info'', JList [])]),
                  s\<lparr>datastore := (datastore s)(uuid \<mapsto> future),
                    executor := executor s @ [(uuid, token)],
                    sys := tick (sys s)\<rparr>,
                  set_status 202 h))
         | Some future \<Rightarrow>
             (case read_status (sys s) uuid of
                Inl e \<Rightarrow> (Inl e, s, h)
              | Inr status \<Rightarrow>
                  if fut_done future
                  then (Inr (JDict [(''status'', JNum 200), (''message'', JStr ''ready''),
                                    (''status_info'', status)]), s, h)
                  else (Inr (JDict [(''status'', JNum 202),
                                    (''message'', JStr (''Job is still running and started '' @
                                       pretty_timedelta env (start_time future)
                                         (utcnow env (ticks (sys s))) @ ''.'')),
                                    (''status_info'', status)]),
                        s\<lparr>sys := tick (sys s)\<rparr>, h))))"

text \<open>\<^verbatim>\<open>APIDataAvailableHandler.post\<close>\<close>

definition available_post ::
  "env \<Rightarrow> string \<Rightarrow> string option \<Rightarrow> server \<times> handler \<Rightarrow> (error + unit) \<times> server \<times> handler" where
  "available_post env uuid token sh =
     (case sh of (s, h) \<Rightarrow>
        (case availablitiy env uuid token (s, set_header ''Content-Type'' ''application/json'' h) of
           (Inl e, s', h') \<Rightarrow> (Inl e, s', h')
         | (Inr response, s', h') \<Rightarrow>
             (case getitem response ''status'' of
                Inr (JNum n) \<Rightarrow> (Inr (), s', finish response (set_status n h'))
              | Inr _ \<Rightarrow> (Inl TypeError, s', h')
              | Inl e \<Rightarrow> (Inl e, s', h'))))"

text \<open>
  \<^verbatim>\<open>APIDataHandler.resp\<close>. Its value is what the Python method returns: \<^verbatim>\<open>None\<close>, or the dict
  built in the \<^verbatim>\<open>except\<close> branch.
\<close>

definition resp ::
  "env \<Rightarrow> string \<Rightarrow> string option \<Rightarrow> server \<times> handler \<Rightarrow> (error + json option) \<times> server \<times> handler" where
  "resp env uuid token sh =
     (case sh of (s, h) \<Rightarrow>
        (case availablitiy env uuid token (s, set_header ''Content-Type'' ''application/json'' h) of
           (Inl e, s', h') \<Rightarrow> (Inl e, s', h')
         | (Inr response, s', h') \<Rightarrow>
             (case getitem response ''status'' of
                Inl e \<Rightarrow> (Inl e, s', h')
              | Inr (JNum n) \<Rightarrow>
                  if n \<noteq> 200 then (Inr None, s', finish response (set_status n h'))
                  else
                    (case datastore s' uuid of
                       None \<Rightarrow> (Inl KeyError, s', h')
                     | Some future \<Rightarrow>
                         (case outcome future of
                            None \<Rightarrow> (Inl WouldBlock, s', h')
                          | Some (Inr payload) \<Rightarrow>
                              (Inr None, s',
                               finish (JDict [(''status'', JNum 200), (''content'', payload)]) h')
                          | Some (Inl err) \<Rightarrow>
                              (Inr (Some (JDict [(''status'', JNum 500),
                                                 (''message'', JStr (str_exc env err)),
                                                 (''traceback'', JStr (format_exc env err))])),
                               s', h')))
              | Inr _ \<Rightarrow> (Inl TypeError, s', h'))))"

text \<open>\<^verbatim>\<open>APIDataHandler.post\<close>: the value of \<^verbatim>\<open>self.resp(uuid, token)\<close> is dropped.\<close>

definition data_post ::
  "env \<Rightarrow> string \<Rightarrow> string option \<Rightarrow> server \<times> handler \<Rightarrow> (error + unit) \<times> server \<times> handler" where
  "data_post env uuid token sh =
     (case resp env uuid token sh of
        (Inl e, s', h') \<Rightarrow> (Inl e, s', h')
      | (Inr _, s', h') \<Rightarrow> (Inr (), s', h'))"

text \<open>A fresh handler: Tornado starts every request with status 200 and nothing sent.\<close>

definition new_handler :: handler where
  "new_handler = \<lparr>status_code = 200, headers = [], body = None\<rparr>"

text \<open>
  The worker pool finishing the job of \<open>uuid\<close>: the submitted call
  \<^verbatim>\<open>fetch_repo_data(uuid, token)\<close> runs and its payload or exception becomes the future's outcome.
\<close>

definition worker_finish :: "env \<Rightarrow> string \<Rightarrow> server \<Rightarrow> server" where
  "worker_finish env uuid s =
     (case datastore s uuid of
        None \<Rightarrow> s
      | Some f \<Rightarrow>
          (case outcome f of
             Some _ \<Rightarrow> s
           | None \<Rightarrow>
               (case fetch_repo_data env (fst (fut_args f)) (snd (fut_args f)) (sys s) of
                  (r, w') \<Rightarrow> s\<lparr>datastore := (datastore s)(uuid \<mapsto> f\<lparr>outcome := Some r\<rparr>), sys := w'\<rparr>)))"

text \<open>What happens to the application over its lifetime, one event after the other.\<close>

datatype event =
  Request string "string option"
  | Data string "string option"
  | Finished string

definition step :: "env \<Rightarrow> server \<Rightarrow> event \<Rightarrow> server" where
  "step env s ev =
     (case ev of
        Request uuid token \<Rightarrow> fst (snd (available_post env uuid token (s, new_handler)))
      | Data uuid token \<Rightarrow> fst (snd (data_post env uuid token (s, new_handler)))
      | Finished uuid \<Rightarrow> worker_finish env uuid s)"

definition dispatched :: "server \<Rightarrow> string \<Rightarrow> nat" where
  "dispatched s k = length (filter (\<lambda>job. fst job = k) (executor s))"

section \<open>Notions used to state the properties\<close>

text \<open>
  The status log of a key as it is persisted: the entries of the status file, and the stage
  names in them.
\<close>

definition stage_name :: "json \<Rightarrow> string" where
  "stage_name e = (case getitem e ''status'' of Inr (JStr m) \<Rightarrow> m | _ \<Rightarrow> [])"

definition entries_of :: "node option \<Rightarrow> json list option" where
  "entries_of n = (case n of Some (File (Doc (JList xs))) \<Rightarrow> Some xs | _ \<Rightarrow> None)"

definition status_log :: "world \<Rightarrow> string \<Rightarrow> json list option" where
  "status_log w uuid = entries_of (nodes w (status_file uuid))"

definition stages_of :: "node option \<Rightarrow> string list" where
  "stages_of n = (case entries_of n of Some xs \<Rightarrow> map stage_name xs | None \<Rightarrow> [])"

definition stage_log :: "world \<Rightarrow> string \<Rightarrow> string list" where
  "stage_log w uuid = stages_of (nodes w (status_file uuid))"

text \<open>A status file \<^verbatim>\<open>update_status\<close> can extend: a non-empty list whose last entry is a dict.\<close>

definition good_node :: "node option \<Rightarrow> bool" where
  "good_node n = (\<exists>xs d. n = Some (File (Doc (JList xs))) \<and> xs \<noteq> [] \<and> last xs = JDict d)"

definition after_status :: "env \<Rightarrow> string \<Rightarrow> string option \<Rightarrow> bool \<Rightarrow> world \<Rightarrow> world" where
  "after_status env uuid message clear w = snd (update_status env uuid message clear w)"

text \<open>The calls a run added to the record.\<close>

definition new_calls :: "world \<Rightarrow> world \<Rightarrow> (call \<times> error option) list" where
  "new_calls w w' = drop (length (calls w)) (calls w')"

text \<open>
  What a part of the pipeline did between two worlds: the stages it logged, the calls it made,
  and the paths, besides the status file, it may have written.
\<close>

definition effect ::
  "string \<Rightarrow> world \<Rightarrow> world \<Rightarrow> string list \<Rightarrow> (call \<times> error option) list \<Rightarrow> string set \<Rightarrow> bool" where
  "effect uuid w w' msgs cs ps \<longleftrightarrow>
     good_node (nodes w' (status_file uuid)) \<and>
     stages_of (nodes w' (status_file uuid)) = stages_of (nodes w (status_file uuid)) @ msgs \<and>
     calls w' = calls w @ cs \<and>
     (\<forall>p. p \<notin> ps \<longrightarrow> p \<noteq> status_file uuid \<longrightarrow> nodes w' p = nodes w p)"

definition report_of :: "json \<Rightarrow> json list \<Rightarrow> json list \<Rightarrow> json" where
  "report_of raw issues sd =
     JDict [(''repo'', raw), (''issues'', JList (take limit issues)), (''stargazers'', JList sd)]"

text \<open>
  The mirror path of a key can be a spelling of the storage directory of the key's files, or
  of a directory above it (the key \<^verbatim>\<open>acme/\<close> has the files \<^verbatim>\<open>ephemeral_storage/acme/.status.json\<close>
  and so on, and the mirror \<^verbatim>\<open>ephemeral_storage/acme/\<close>): then lines 85 to 88 make it.
\<close>

definition made_mirror :: "string \<Rightarrow> world \<Rightarrow> bool" where
  "made_mirror uuid w \<longleftrightarrow>
     \<not> path_exists w (dirname (github_cache uuid)) \<and> locate (target uuid) \<noteq> [] \<and>
     prefix (locate (target uuid)) (locate (dirname (github_cache uuid)))"

text \<open>The world in which the tiers start: lines 84 to 92 have run and the repository is resolved.\<close>

definition started :: "string \<Rightarrow> string option \<Rightarrow> world \<Rightarrow> world \<Rightarrow> bool" where
  "started uuid token w w1 \<longleftrightarrow>
     good_node (nodes w1 (status_file uuid)) \<and>
     stages_of (nodes w1 (status_file uuid)) = [''Initial validation of repo''] \<and>
     ticks w1 = Suc (ticks w) \<and>
     nodes w (status_file uuid) \<noteq> Some Dir \<and>
     nodes w1 (github_cache uuid) = nodes w (github_cache uuid) \<and>
     nodes w1 (computed_cache uuid) = nodes w (computed_cache uuid) \<and>
     (nodes w1 (target uuid) \<noteq> None) = (nodes w (target uuid) \<noteq> None \<or> made_mirror uuid w) \<and>
     (\<exists>out. calls w1 = calls w @ [(GetRepo token uuid, out)])"

definition storage_prefix :: "string \<Rightarrow> string" where
  "storage_prefix uuid = (if uuid \<noteq> [] \<and> hd uuid = CHR ''/'' then [] else ''ephemeral_storage/'')"

text \<open>
  The invariant of the status log: at most one entry has no \<^verbatim>\<open>end\<close>, and such an entry is
  the last one. \<open>log_ok\<close> says it of the log persisted for a key, when there is one.
\<close>

definition has_end :: "json \<Rightarrow> bool" where
  "has_end e = (case e of JDict d \<Rightarrow> map_of d ''end'' \<noteq> None | _ \<Rightarrow> False)"

definition open_entries :: "json list \<Rightarrow> json list" where
  "open_entries xs = filter (\<lambda>e. \<not> has_end e) xs"

definition log_invariant :: "json list \<Rightarrow> bool" where
  "log_invariant xs \<longleftrightarrow>
     length (open_entries xs) \<le> 1 \<and> (open_entries xs = [] \<or> \<not> has_end (last xs))"

definition log_ok :: "world \<Rightarrow> string \<Rightarrow> bool" where
  "log_ok w uuid = (case status_log w uuid of None \<Rightarrow> True | Some xs \<Rightarrow> log_invariant xs)"

text \<open>A concrete environment, repository and worlds, on which the theorems are instantiated.\<close>

definition demo_repo :: remote where
  "demo_repo =
     \<lparr>raw_data = Inr (JDict [(''full_name'', JStr ''acme/widgets'')]),
      get_issues = (\<lambda>state since. Inr [JNum 1, JNum 2, JNum 3, JNum 4, JNum 5, JNum 6, JNum 7]),
      get_stargazers_with_dates =
        Inr [JDict [(''starred_at'', JStr ''2017-07-01T00:00:00Z''),
                    (''user'', JDict [(''login'', JStr ''ann'')])]],
      clone_url = ''https://github.com/acme/widgets.git''\<rparr>"

definition demo_local :: local_repo where
  "demo_local = \<lparr>working_dir = ''ephemeral_storage/acme/widgets'', remotes = [Inr ()]\<rparr>"

definition demo_env :: env where
  "demo_env =
     \<lparr>utcnow = (\<lambda>n. 1500000000 + int n),
      strftime = (\<lambda>fmt t. ''2017-07-14T02:40:00Z''),
      str_exc = (\<lambda>e. case e of Raised m \<Rightarrow> m | _ \<Rightarrow> ''error''),
      format_exc = (\<lambda>e. ''Traceback (most recent call last): ...''),
      get_repo = (\<lambda>token uuid. Inr demo_repo),
      open_repo = (\<lambda>dir. Inr demo_local),
      clone_from = (\<lambda>url dir. Inr demo_local),
      commits = (\<lambda>repo. Inr (JDict [(''commits'', JNum 42)]))\<rparr>"

definition failing_env :: env where
  "failing_env = demo_env\<lparr>commits := (\<lambda>repo. Inl (Raised ''analysis failed''))\<rparr>"

definition empty_world :: world where
  "empty_world = \<lparr>nodes = Map.empty, calls = [], ticks = 0\<rparr>"

definition logged_world :: world where
  "logged_world =
     \<lparr>nodes = [''ephemeral_storage/acme/widgets.status.json'' \<mapsto>
                 File (Doc (JList [JDict [(''start'', JStr ''2017-07-14T02:40:00Z''),
                                          (''status'', JStr ''Initial validation of repo'')]]))],
      calls = [], ticks = 0\<rparr>"

text \<open>The application as it starts: nothing submitted, nothing in the datastore.\<close>

definition new_server :: "world \<Rightarrow> server" where
  "new_server w = \<lparr>datastore = Map.empty, executor = [], sys = w\<rparr>"

text \<open>Every key of the datastore was dispatched once, and no other key was dispatched.\<close>

definition registry_ok :: "server \<Rightarrow> bool" where
  "registry_ok s = (\<forall>k. dispatched s k = (if datastore s k = None then 0 else 1))"

definition failed_server :: server where
  "failed_server =
     \<lparr>datastore = [''acme/widgets'' \<mapsto>
        \<lparr>fut_args = (''acme/widgets'', Some ''t0k3n''), start_time = 1500000000,
         outcome = Some (Inl (Raised ''analysis failed''))\<rparr>],
      executor = [(''acme/widgets'', Some ''t0k3n'')],
      sys = logged_world\<rparr>"

text \<open>The stages a part of the pipeline added to the status log.\<close>

definition new_stages :: "string \<Rightarrow> world \<Rightarrow> world \<Rightarrow> string list" where
  "new_stages uuid w w' = drop (length (stage_log w uuid)) (stage_log w' uuid)"

text \<open>The calls that produce the artifact of a tier.\<close>

definition github_producer :: "call \<Rightarrow> bool" where
  "github_producer c =
     (case c of RawData \<Rightarrow> True | GetIssues state since \<Rightarrow> True | GetStargazers \<Rightarrow> True
      | _ \<Rightarrow> False)"

definition analysis_producer :: "call \<Rightarrow> bool" where
  "analysis_producer c =
     (case c of OpenRepo dir \<Rightarrow> True | FetchRemotes \<Rightarrow> True | CloneFrom url dir \<Rightarrow> True
      | Commits \<Rightarrow> True | _ \<Rightarrow> False)"

text \<open>
  The stage sequence of the specification, as a run logs it: resolve-identity, then the three
  remote fetches or the one load of their cached artifact, then the mirror (updated when it
  exists, cloned otherwise) and the analysis, or the one load of the cached analysis. And the
  calls to the collaborators in the same order.
\<close>

definition gh_stages :: "bool \<Rightarrow> string list" where
  "gh_stages gh_hit =
     (if gh_hit then [''Load GitHub API data from ephemeral cache'']
      else [''Fetching GitHub API data'', ''Fetching GitHub issues data'',
            ''Fetching GitHub stargazer data''])"

definition an_stages :: "bool \<Rightarrow> bool \<Rightarrow> string list" where
  "an_stages an_hit mir_hit =
     (if an_hit then [''Load commit from ephemeral cache'']
      else [if mir_hit then ''Fetching remotes from cached clone'' else ''Cloning repo'',
            ''Analysing commits''])"


definition gh_calls :: "bool \<Rightarrow> int \<Rightarrow> call list" where
  "gh_calls gh_hit since =
     (if gh_hit then [] else [RawData, GetIssues ''all'' since, GetStargazers])"

definition an_calls :: "bool \<Rightarrow> bool \<Rightarrow> string \<Rightarrow> string \<Rightarrow> call list" where
  "an_calls an_hit mir_hit url dir =
     (if an_hit then []
      else (if mir_hit then [OpenRepo dir, FetchRemotes] else [CloneFrom url dir]) @ [Commits])"


text \<open>A document with the three sections the GitHub tier writes.\<close>

definition has_sections :: "json \<Rightarrow> bool" where
  "has_sections j =
     (case j of
        JDict d \<Rightarrow> map_of d ''repo'' \<noteq> None \<and> map_of d ''issues'' \<noteq> None \<and>
                   map_of d ''stargazers'' \<noteq> None
      | _ \<Rightarrow> False)"

definition demo_report :: json where
  "demo_report =
     JDict [(''repo'', JDict [(''full_name'', JStr ''acme/widgets'')]),
            (''issues'', JList [JNum 1]),
            (''stargazers'', JList [])]"

definition cached_world :: world where
  "cached_world =
     \<lparr>nodes = [''ephemeral_storage/acme/widgets.github.json'' \<mapsto> File (Doc demo_report)],
      calls = [], ticks = 0\<rparr>"

definition corrupt_world :: world where
  "corrupt_world =
     \<lparr>nodes = [''ephemeral_storage/acme/widgets.github.json'' \<mapsto>
                 File (Unreadable JSONDecodeError)],
      calls = [], ticks = 0\<rparr>"

definition undecodable_world :: world where
  "undecodable_world =
     \<lparr>nodes = [''ephemeral_storage/acme/widgets_computed.json'' \<mapsto>
                 File (Unreadable UnicodeDecodeError)],
      calls = [], ticks = 0\<rparr>"

definition running_server :: server where
  "running_server =
     \<lparr>datastore = [''acme/widgets'' \<mapsto>
        \<lparr>fut_args = (''acme/widgets'', None), start_time = 1500000000, outcome = None\<rparr>],
      executor = [(''acme/widgets'', None)],
      sys = cached_world\<rparr>"

definition demo_payload :: json where
  "demo_payload = JDict [(''commits'', JNum 42), (''github'', demo_report)]"

section \<open>Paths of a key\<close>

lemma storage_path_eq:
  "s = [] \<or> hd s \<noteq> CHR ''/'' \<Longrightarrow>
     path_join ''ephemeral_storage'' (uuid @ s) = storage_prefix uuid @ uuid @ s"
  by (cases uuid) (auto simp: path_join_def storage_prefix_def)

lemma status_file_eq: "status_file uuid = storage_prefix uuid @ uuid @ ''.status.json''"
  unfolding status_file_def by (rule storage_path_eq) simp

lemma github_cache_eq: "github_cache uuid = storage_prefix uuid @ uuid @ ''.github.json''"
  unfolding github_cache_def by (rule storage_path_eq) simp

lemma computed_cache_eq: "computed_cache uuid = storage_prefix uuid @ uuid @ ''_computed.json''"
  unfolding computed_cache_def by (rule storage_path_eq) simp

lemma target_eq: "target uuid = storage_prefix uuid @ uuid"
  using storage_path_eq [of "[]" uuid] by (simp add: target_def)

lemma paths_distinct [simp]:
  "status_file uuid \<noteq> github_cache uuid" "github_cache uuid \<noteq> status_file uuid"
  "status_file uuid \<noteq> computed_cache uuid" "computed_cache uuid \<noteq> status_file uuid"
  "github_cache uuid \<noteq> computed_cache uuid" "computed_cache uuid \<noteq> github_cache uuid"
  "status_file uuid \<noteq> target uuid" "target uuid \<noteq> status_file uuid"
  "github_cache uuid \<noteq> target uuid" "target uuid \<noteq> github_cache uuid"
  "computed_cache uuid \<noteq> target uuid" "target uuid \<noteq> computed_cache uuid"
  by (simp_all add: status_file_eq github_cache_eq computed_cache_eq target_eq)

lemma split_path_not_Nil [simp]: "split_path p \<noteq> []"
  by (induction p) (auto split: list.splits)

lemma split_path_plain: "CHR ''/'' \<notin> set s \<Longrightarrow> split_path s = [s]"
  by (induction s) auto

lemma split_path_slash:
  "split_path (xs @ CHR ''/'' # ys) = split_path xs @ split_path ys"
  by (induction xs) (auto split: list.splits)

lemma split_path_append:
  "CHR ''/'' \<notin> set s \<Longrightarrow>
     split_path (a @ s) = butlast (split_path a) @ [last (split_path a) @ s]"
  by (induction a) (auto simp: split_path_plain split: list.splits)

lemma split_path_slashes: "filter named (split_path (x @ replicate k CHR ''/'')) = filter named (split_path x)"
proof (induction k arbitrary: x)
  case 0
  show ?case by simp
next
  case (Suc k)
  have "x @ replicate (Suc k) CHR ''/'' = (x @ ''/'') @ replicate k CHR ''/''"
    by simp
  then have "filter named (split_path (x @ replicate (Suc k) CHR ''/'')) =
      filter named (split_path (x @ ''/''))"
    using Suc [of "x @ ''/''"] by (simp only:)
  also have "\<dots> = filter named (split_path x)"
    using split_path_slash [of x "[]"] by (simp add: named_def)
  finally show ?case .
qed

lemma rstrip_slash_decomp:
  "\<exists>k. x = rstrip_slash x @ replicate k CHR ''/''"
proof -
  let ?t = "takeWhile (\<lambda>c. c = CHR ''/'') (rev x)"
  have "rev x = ?t @ dropWhile (\<lambda>c. c = CHR ''/'') (rev x)"
    by simp
  then have "x = rstrip_slash x @ rev ?t"
    unfolding rstrip_slash_def by (metis rev_append rev_rev_ident)
  moreover have "rev ?t = replicate (length ?t) CHR ''/''"
  proof -
    have "\<forall>c\<in>set (rev ?t). c = CHR ''/''"
      by (auto dest: set_takeWhileD)
    then show ?thesis
      by (metis length_rev replicate_length_same)
  qed
  ultimately show ?thesis
    by metis
qed

lemma named_rstrip_slash:
  "filter named (split_path (rstrip_slash x)) = filter named (split_path x)"
  using rstrip_slash_decomp [of x] split_path_slashes [of "rstrip_slash x"] by metis

lemma named_dirname:
  "filter named (split_path (dirname p)) = filter named (butlast (split_path p))"
proof -
  define t where "t = rev (takeWhile (\<lambda>c. c \<noteq> CHR ''/'') (rev p))"
  define h where "h = rev (dropWhile (\<lambda>c. c \<noteq> CHR ''/'') (rev p))"
  have p: "p = h @ t"
  proof -
    have "rev p = rev t @ rev h"
      by (simp add: t_def h_def)
    then show ?thesis
      by (metis rev_append rev_rev_ident)
  qed
  have t: "CHR ''/'' \<notin> set t"
    by (auto simp: t_def dest: set_takeWhileD)
  have d: "dirname p = (if h \<noteq> [] \<and> filter (\<lambda>c. c \<noteq> CHR ''/'') h \<noteq> [] then rstrip_slash h else h)"
    by (simp add: dirname_def h_def Let_def)
  have dh: "filter named (split_path (dirname p)) = filter named (split_path h)"
    by (simp add: d named_rstrip_slash)
  show ?thesis
  proof (cases "h = []")
    case True
    then have "split_path p = [t]"
      using p t by (simp add: split_path_plain)
    with True show ?thesis
      by (simp add: dh named_def)
  next
    case False
    then have "dropWhile (\<lambda>c. c \<noteq> CHR ''/'') (rev p) \<noteq> []"
      by (simp add: h_def)
    then have "hd (dropWhile (\<lambda>c. c \<noteq> CHR ''/'') (rev p)) = CHR ''/''"
      using hd_dropWhile [of "\<lambda>c. c \<noteq> CHR ''/''" "rev p"] by simp
    then have "last h = CHR ''/''"
      using False by (simp add: h_def last_rev)
    with False obtain h' where h': "h = h' @ ''/''"
      by (metis append_butlast_last_id)
    have "split_path p = split_path h' @ [t]"
      using split_path_slash [of h' t] t by (simp add: p h' split_path_plain)
    moreover have "split_path h = split_path h' @ [[]]"
      using split_path_slash [of h' "[]"] by (simp add: h')
    ultimately show ?thesis
      by (simp add: dh named_def)
  qed
qed

lemma dirname_prefix: "prefix (dirname p) p"
proof -
  define h where "h = rev (dropWhile (\<lambda>c. c \<noteq> CHR ''/'') (rev p))"
  have "suffix (dropWhile (\<lambda>c. c \<noteq> CHR ''/'') (rev p)) (rev p)"
    by (rule suffix_dropWhile)
  then have hp: "prefix h p"
    by (simp add: h_def suffix_to_prefix)
  have "suffix (dropWhile (\<lambda>c. c = CHR ''/'') (rev h)) (rev h)"
    by (rule suffix_dropWhile)
  then have "prefix (rstrip_slash h) h"
    by (simp add: rstrip_slash_def suffix_to_prefix)
  then have "prefix (rstrip_slash h) p"
    using hp by (rule prefix_order.trans)
  with hp show ?thesis
    by (simp add: dirname_def h_def [symmetric] Let_def)
qed

lemma locate_dirname_length:
  "length (locate (dirname p)) \<le>
     length (if p \<noteq> [] \<and> hd p = CHR ''/'' then [''/''] else []) +
     length (filter named (butlast (split_path p)))"
proof -
  have "dirname p \<noteq> [] \<Longrightarrow> p \<noteq> [] \<and> hd (dirname p) = hd p"
    using dirname_prefix [of p] by (metis append_is_Nil_conv hd_append2 prefix_def)
  then show ?thesis
    by (auto simp: locate_def named_dirname)
qed

lemma locate_file:
  assumes "CHR ''/'' \<notin> set s" and "2 \<le> length s" and "a \<noteq> []"
  shows "locate (a @ s) =
    (if hd a = CHR ''/'' then [''/''] else []) @
    filter named (butlast (split_path a)) @ [last (split_path a) @ s]"
proof -
  have "length (last (split_path a) @ s) \<noteq> length ''.''"
    using assms(2) by simp
  then have "last (split_path a) @ s \<noteq> ''.''"
    by metis
  then have "named (last (split_path a) @ s)"
    using assms(2) by (auto simp: named_def)
  with assms show ?thesis
    by (simp add: locate_def split_path_append)
qed

lemma file_not_above:
  assumes "CHR ''/'' \<notin> set s" and "2 \<le> length s" and "CHR ''/'' \<notin> set s'" and "a \<noteq> []"
  shows "\<not> prefix (locate (a @ s)) (locate (dirname (a @ s')))"
proof
  assume "prefix (locate (a @ s)) (locate (dirname (a @ s')))"
  then have "length (locate (a @ s)) \<le> length (locate (dirname (a @ s')))"
    by (rule prefix_length_le)
  moreover have "butlast (split_path (a @ s')) = butlast (split_path a)"
    using assms(3) by (simp add: split_path_append)
  ultimately show False
    using locate_dirname_length [of "a @ s'"] assms
    by (simp add: locate_file split: if_splits)
qed

lemma storage_path_not_Nil: "storage_prefix uuid @ uuid \<noteq> []"
  by (simp add: storage_prefix_def)

lemma cache_not_above:
  assumes "CHR ''/'' \<notin> set s" and "2 \<le> length s"
  shows "\<not> prefix (locate (storage_prefix uuid @ uuid @ s)) (locate (dirname (github_cache uuid)))"
proof -
  have "CHR ''/'' \<notin> set ''.github.json''"
    by simp
  from file_not_above [OF assms this storage_path_not_Nil] show ?thesis
    by (simp add: github_cache_eq)
qed

lemma files_not_above [simp]:
  "\<not> prefix (locate (status_file uuid)) (locate (dirname (github_cache uuid)))"
  "\<not> prefix (locate (github_cache uuid)) (locate (dirname (github_cache uuid)))"
  "\<not> prefix (locate (computed_cache uuid)) (locate (dirname (github_cache uuid)))"
  unfolding status_file_eq [of uuid] computed_cache_eq [of uuid]
  by (rule cache_not_above, simp, simp, subst github_cache_eq, rule cache_not_above, simp, simp,
      rule cache_not_above, simp, simp)

section \<open>What \<^verbatim>\<open>update_status\<close> does to the world\<close>

lemmas run_defs = bind_def ret_def lift_def invoke_def now_def tick_def exists_run_def
  path_exists_def json_load_def json_dump_def makedirs_def update_status_def read_existing_def
  append_message_def close_last_def

lemmas step_defs = bind_def ret_def lift_def invoke_def now_def exists_run_def
  path_exists_def json_load_def json_dump_def

lemma nodes_tick [simp]: "nodes (tick w) = nodes w"
  by (simp add: tick_def)

lemma calls_tick [simp]: "calls (tick w) = calls w"
  by (simp add: tick_def)

lemma ticks_tick [simp]: "ticks (tick w) = Suc (ticks w)"
  by (simp add: tick_def)

lemma update_status_calls [simp]: "calls (after_status env uuid message clear w) = calls w"
  by (auto simp: after_status_def run_defs
      split: option.splits node.splits content.splits json.splits sum.splits)

lemma update_status_frame [simp]:
  "p \<noteq> status_file uuid \<Longrightarrow> nodes (after_status env uuid message clear w) p = nodes w p"
  by (auto simp: after_status_def run_defs
      split: option.splits node.splits content.splits json.splits sum.splits)

lemma update_status_ok [simp]:
  "good_node (nodes w (status_file uuid)) \<Longrightarrow>
     update_status env uuid message False w = (Inr (), after_status env uuid message False w)"
  by (auto simp: good_node_def after_status_def run_defs split: option.splits)

lemma stage_name_entry [simp]: "stage_name (JDict [(''start'', t), (''status'', JStr m)]) = m"
  by (simp add: stage_name_def getitem_def)

lemma stage_name_update_end [simp]:
  "stage_name (JDict (AList.update ''end'' t d)) = stage_name (JDict d)"
  by (simp add: stage_name_def getitem_def update_conv')

lemma map_stage_name_close:
  assumes "xs \<noteq> []" and "last xs = JDict d"
  shows "map stage_name (butlast xs) @ [stage_name (JDict d)] = map stage_name xs"
proof -
  have "map stage_name xs = map stage_name (butlast xs @ [last xs])"
    using assms(1) by simp
  then show ?thesis
    using assms(2) by simp
qed

lemma update_status_good [simp]:
  "good_node (nodes w (status_file uuid)) \<Longrightarrow>
     good_node (nodes (after_status env uuid message False w) (status_file uuid))"
  by (cases message) (auto simp: good_node_def after_status_def run_defs split: option.splits)

lemma update_status_stages [simp]:
  "good_node (nodes w (status_file uuid)) \<Longrightarrow>
     stages_of (nodes (after_status env uuid message False w) (status_file uuid)) =
       stages_of (nodes w (status_file uuid)) @ (case message of None \<Rightarrow> [] | Some m \<Rightarrow> [m])"
  by (cases message)
    (auto simp: good_node_def after_status_def run_defs stages_of_def entries_of_def
      map_stage_name_close split: option.splits)

lemma update_status_ticks [simp]:
  "good_node (nodes w (status_file uuid)) \<Longrightarrow>
     ticks (after_status env uuid message False w) =
       ticks w + (case message of None \<Rightarrow> 1 | Some m \<Rightarrow> 2)"
  by (cases message) (auto simp: good_node_def after_status_def run_defs split: option.splits)

lemma update_status_clear:
  "update_status env uuid (Some m) True w =
     (if nodes w (status_file uuid) = Some Dir then (Inl IsADirectoryError, tick w)
      else (Inr (), after_status env uuid (Some m) True w))"
  by (auto simp: after_status_def run_defs split: option.splits node.splits)

lemma update_status_clear_good [simp]:
  "nodes w (status_file uuid) \<noteq> Some Dir \<Longrightarrow>
     good_node (nodes (after_status env uuid (Some m) True w) (status_file uuid))"
  by (auto simp: good_node_def after_status_def run_defs split: option.splits node.splits)

lemma update_status_clear_stages [simp]:
  "nodes w (status_file uuid) \<noteq> Some Dir \<Longrightarrow>
     stages_of (nodes (after_status env uuid (Some m) True w) (status_file uuid)) = [m]"
  by (auto simp: after_status_def run_defs stages_of_def entries_of_def
      split: option.splits node.splits)

lemma update_status_clear_ticks [simp]:
  "ticks (after_status env uuid (Some m) True w) = Suc (ticks w)"
  by (auto simp: after_status_def run_defs split: option.splits node.splits)

section \<open>The pipeline, case by case\<close>

lemma effect_good: "effect uuid w w' msgs cs ps \<Longrightarrow> good_node (nodes w' (status_file uuid))"
  by (simp add: effect_def)

lemma effect_nodes:
  "effect uuid w w' msgs cs ps \<Longrightarrow> p \<notin> ps \<Longrightarrow> p \<noteq> status_file uuid \<Longrightarrow> nodes w' p = nodes w p"
  by (simp add: effect_def)

lemma effect_calls: "effect uuid w w' msgs cs ps \<Longrightarrow> calls w' = calls w @ cs"
  by (simp add: effect_def)

lemma effect_stages:
  "effect uuid w w' msgs cs ps \<Longrightarrow>
     stages_of (nodes w' (status_file uuid)) = stages_of (nodes w (status_file uuid)) @ msgs"
  by (simp add: effect_def)

lemma effect_trans:
  "effect uuid w w1 m1 c1 p1 \<Longrightarrow> effect uuid w1 w2 m2 c2 p2 \<Longrightarrow>
     effect uuid w w2 (m1 @ m2) (c1 @ c2) (p1 \<union> p2)"
  by (simp add: effect_def)

lemma plus4: "n + 4 = Suc (Suc (Suc (Suc n)))"
  by simp

lemma produce_report_cases [consumes 3, case_names raw_failed issues_failed stargazers_failed
    produced]:
  assumes "produce_report env uuid repo w = (r, w')"
    and "good_node (nodes w (status_file uuid))"
    and "nodes w (github_cache uuid) = None"
  obtains
    e where "raw_data repo = Inl e" "r = Inl e"
      "effect uuid w w' [''Fetching GitHub API data''] [(RawData, Some e)] {}"
  | raw e where "raw_data repo = Inr raw"
      "get_issues repo ''all'' (utcnow env (ticks w + 4) - days 30) = Inl e" "r = Inl e"
      "effect uuid w w' [''Fetching GitHub API data'', ''Fetching GitHub issues data'']
         [(RawData, None), (GetIssues ''all'' (utcnow env (ticks w + 4) - days 30), Some e)] {}"
  | raw issues e where "raw_data repo = Inr raw"
      "get_issues repo ''all'' (utcnow env (ticks w + 4) - days 30) = Inr issues"
      "stargazers_of repo = Inl e" "r = Inl e"
      "effect uuid w w' [''Fetching GitHub API data'', ''Fetching GitHub issues data'',
           ''Fetching GitHub stargazer data'']
         [(RawData, None), (GetIssues ''all'' (utcnow env (ticks w + 4) - days 30), None),
          (GetStargazers, Some e)] {}"
  | raw issues sd where "raw_data repo = Inr raw"
      "get_issues repo ''all'' (utcnow env (ticks w + 4) - days 30) = Inr issues"
      "stargazers_of repo = Inr sd" "r = Inr (report_of raw issues sd)"
      "nodes w' (github_cache uuid) = Some (File (Doc (report_of raw issues sd)))"
      "effect uuid w w' [''Fetching GitHub API data'', ''Fetching GitHub issues data'',
           ''Fetching GitHub stargazer data'']
         [(RawData, None), (GetIssues ''all'' (utcnow env (ticks w + 4) - days 30), None),
          (GetStargazers, None)]
         {github_cache uuid}"
  using assms
  by (auto simp: produce_report_def step_defs effect_def report_of_def plus4 failure_def
      split: sum.splits)

lemma github_tier_cases [consumes 2, case_names loaded unreadable directory miss]:
  assumes "github_tier env uuid repo w = (r, w')"
    and "good_node (nodes w (status_file uuid))"
  obtains
    report where "nodes w (github_cache uuid) = Some (File (Doc report))" "r = Inr report"
      "effect uuid w w' [''Load GitHub API data from ephemeral cache''] [] {}"
  | e where "nodes w (github_cache uuid) = Some (File (Unreadable e))" "r = Inl e"
      "effect uuid w w' [''Load GitHub API data from ephemeral cache''] [] {}"
  | "nodes w (github_cache uuid) = Some Dir" "r = Inl IsADirectoryError"
      "effect uuid w w' [''Load GitHub API data from ephemeral cache''] [] {}"
  | "nodes w (github_cache uuid) = None" "produce_report env uuid repo w = (r, w')"
  using assms
  by (auto simp: github_tier_def step_defs effect_def
      split: option.splits node.splits content.splits if_splits)

lemma mirror_cases [consumes 2, case_names open_failed fetch_failed updated clone_failed cloned]:
  assumes "mirror env uuid repo w = (r, w')"
    and "good_node (nodes w (status_file uuid))"
  obtains
    e where "nodes w (target uuid) \<noteq> None" "open_repo env (target uuid) = Inl e" "r = Inl e"
      "effect uuid w w' [''Fetching remotes from cached clone'']
         [(OpenRepo (target uuid), Some e)] {}"
  | loc e where "nodes w (target uuid) \<noteq> None" "open_repo env (target uuid) = Inr loc"
      "fetch_all (remotes loc) = Inl e" "r = Inl e"
      "effect uuid w w' [''Fetching remotes from cached clone'']
         [(OpenRepo (target uuid), None), (FetchRemotes, Some e)] {}"
  | loc where "nodes w (target uuid) \<noteq> None" "open_repo env (target uuid) = Inr loc"
      "fetch_all (remotes loc) = Inr ()" "r = Inr loc"
      "effect uuid w w' [''Fetching remotes from cached clone'']
         [(OpenRepo (target uuid), None), (FetchRemotes, None)] {}"
  | e where "nodes w (target uuid) = None"
      "clone_from env (clone_url repo) (target uuid) = Inl e" "r = Inl e"
      "effect uuid w w' [''Cloning repo''] [(CloneFrom (clone_url repo) (target uuid), Some e)] {}"
  | loc where "nodes w (target uuid) = None"
      "clone_from env (clone_url repo) (target uuid) = Inr loc" "r = Inr loc"
      "nodes w' (target uuid) = Some Dir"
      "effect uuid w w' [''Cloning repo''] [(CloneFrom (clone_url repo) (target uuid), None)]
         {target uuid}"
  using assms
  by (auto simp: mirror_def clone_run_def step_defs effect_def failure_def
      split: sum.splits if_splits)

lemma mirror_effect:
  assumes "mirror env uuid repo w = (r, w')"
    and "good_node (nodes w (status_file uuid))"
  shows "good_node (nodes w' (status_file uuid))"
    and "nodes w' (computed_cache uuid) = nodes w (computed_cache uuid)"
    and "nodes w' (github_cache uuid) = nodes w (github_cache uuid)"
  using assms by (cases rule: mirror_cases; simp add: effect_def)+

lemma computed_tier_cases [consumes 2, case_names loaded unreadable directory mirror_failed
    analysis_failed produced]:
  assumes "computed_tier env uuid repo w = (r, w')"
    and "good_node (nodes w (status_file uuid))"
  obtains
    repo_data where "nodes w (computed_cache uuid) = Some (File (Doc repo_data))"
      "r = Inr repo_data" "effect uuid w w' [''Load commit from ephemeral cache''] [] {}"
  | e where "nodes w (computed_cache uuid) = Some (File (Unreadable e))" "r = Inl e"
      "effect uuid w w' [''Load commit from ephemeral cache''] [] {}"
  | "nodes w (computed_cache uuid) = Some Dir" "r = Inl IsADirectoryError"
      "effect uuid w w' [''Load commit from ephemeral cache''] [] {}"
  | e where "nodes w (computed_cache uuid) = None" "mirror env uuid repo w = (Inl e, w')"
      "r = Inl e"
  | loc w1 e where "nodes w (computed_cache uuid) = None"
      "mirror env uuid repo w = (Inr loc, w1)" "commits env loc = Inl e" "r = Inl e"
      "effect uuid w1 w' [''Analysing commits''] [(Commits, Some e)] {}"
  | loc w1 repo_data where "nodes w (computed_cache uuid) = None"
      "mirror env uuid repo w = (Inr loc, w1)" "commits env loc = Inr repo_data"
      "r = Inr repo_data" "nodes w' (computed_cache uuid) = Some (File (Doc repo_data))"
      "effect uuid w1 w' [''Analysing commits''] [(Commits, None)] {computed_cache uuid}"
proof (cases "nodes w (computed_cache uuid) = None")
  case False
  with assms that(1,2,3) show ?thesis
    by (auto simp: computed_tier_def step_defs effect_def
        split: option.splits node.splits content.splits if_splits)
next
  case absent: True
  obtain rm w1 where m: "mirror env uuid repo w = (rm, w1)"
    by (cases "mirror env uuid repo w")
  note fx = mirror_effect [OF m assms(2)]
  show ?thesis
  proof (cases rm)
    case (Inl e)
    with assms absent m that(4) show ?thesis
      by (auto simp: computed_tier_def step_defs)
  next
    case (Inr loc)
    with assms absent m fx that(5,6) [of loc w1] show ?thesis
      by (auto simp: computed_tier_def step_defs effect_def failure_def split: sum.splits)
  qed
qed

lemma github_tier_good:
  assumes "github_tier env uuid repo w = (r, w')"
    and "good_node (nodes w (status_file uuid))"
  shows "good_node (nodes w' (status_file uuid))"
  using assms
proof (cases rule: github_tier_cases)
  case miss
  from miss(2) assms(2) miss(1) show ?thesis
    by (cases rule: produce_report_cases) (simp_all add: effect_def)
qed (simp_all add: effect_def)

lemma computed_tier_good:
  assumes "computed_tier env uuid repo w = (r, w')"
    and "good_node (nodes w (status_file uuid))"
  shows "good_node (nodes w' (status_file uuid))"
  using assms
proof (cases rule: computed_tier_cases)
  case (mirror_failed e)
  from mirror_effect(1) [OF mirror_failed(2) assms(2)] show ?thesis .
qed (simp_all add: effect_def)

lemma started_after:
  assumes "nodes w (status_file uuid) \<noteq> Some Dir"
    and "makedirs (dirname (github_cache uuid)) w = (Inr (), w0)"
  shows "started uuid token w
           ((after_status env uuid (Some ''Initial validation of repo'') True w0)
            \<lparr>calls := calls w @ [(GetRepo token uuid, out)]\<rparr>)"
  using assms by (auto simp: started_def makedirs_def made_mirror_def path_exists_def split: if_splits)

lemma fetch_repo_data_cases [consumes 1, case_names status_is_dir identity_failed github_failed
    computed_failed finished]:
  assumes "fetch_repo_data env uuid token w = (r, w')"
  obtains
    "nodes w (status_file uuid) = Some Dir" "r = Inl IsADirectoryError" "calls w' = calls w"
      "nodes w' (status_file uuid) = Some Dir"
      "nodes w' (github_cache uuid) = nodes w (github_cache uuid)"
      "nodes w' (computed_cache uuid) = nodes w (computed_cache uuid)"
  | e where "get_repo env token uuid = Inl e" "r = Inl e" "started uuid token w w'"
      "calls w' = calls w @ [(GetRepo token uuid, Some e)]"
  | repo w1 e where "get_repo env token uuid = Inr repo" "started uuid token w w1"
      "calls w1 = calls w @ [(GetRepo token uuid, None)]"
      "github_tier env uuid repo w1 = (Inl e, w')" "r = Inl e"
  | repo w1 report w2 e where "get_repo env token uuid = Inr repo" "started uuid token w w1"
      "calls w1 = calls w @ [(GetRepo token uuid, None)]"
      "github_tier env uuid repo w1 = (Inr report, w2)"
      "computed_tier env uuid repo w2 = (Inl e, w')" "r = Inl e"
  | repo w1 report w2 repo_data w3 where "get_repo env token uuid = Inr repo"
      "started uuid token w w1" "calls w1 = calls w @ [(GetRepo token uuid, None)]"
      "github_tier env uuid repo w1 = (Inr report, w2)"
      "computed_tier env uuid repo w2 = (Inr repo_data, w3)"
      "r = setitem repo_data ''github'' report" "effect uuid w3 w' [] [] {}"
proof -
  let ?d = "dirname (github_cache uuid)"
  obtain w0 where w0: "makedirs ?d w = (Inr (), w0)"
    by (cases "path_exists w ?d") (simp_all add: makedirs_def)
  then have w0_nodes: "nodes w0 (status_file uuid) = nodes w (status_file uuid)"
    "nodes w0 (github_cache uuid) = nodes w (github_cache uuid)"
    "nodes w0 (computed_cache uuid) = nodes w (computed_cache uuid)"
    "calls w0 = calls w"
    by (auto simp: makedirs_def split: if_splits)
  show ?thesis
  proof (cases "nodes w (status_file uuid) = Some Dir")
    case True
    with assms w0 w0_nodes have "r = Inl IsADirectoryError" "w' = tick w0"
      by (simp_all add: fetch_repo_data_def bind_def update_status_clear)
    with True w0_nodes that(1) show ?thesis
      by simp
  next
    case False
    let ?w1 = "(after_status env uuid (Some ''Initial validation of repo'') True w0)
                 \<lparr>calls := calls w @ [(GetRepo token uuid, failure (get_repo env token uuid))]\<rparr>"
    have st: "started uuid token w ?w1"
      using False w0 by (rule started_after)
    then have good1: "good_node (nodes ?w1 (status_file uuid))"
      by (simp add: started_def)
    have run: "fetch_repo_data env uuid token w =
        (case get_repo env token uuid of
           Inl e \<Rightarrow> (Inl e, ?w1)
         | Inr repo \<Rightarrow>
             bind (github_tier env uuid repo) (\<lambda>report.
             bind (computed_tier env uuid repo) (\<lambda>repo_data.
             bind (update_status env uuid None False) (\<lambda>_.
             lift (setitem repo_data ''github'' report)))) ?w1)"
      using False w0 w0_nodes
      by (simp add: fetch_repo_data_def bind_def update_status_clear invoke_def
          split: sum.splits)
    show ?thesis
    proof (cases "get_repo env token uuid")
      case (Inl e)
      with assms run have r: "r = Inl e" and w': "w' = ?w1"
        by simp_all
      have "calls ?w1 = calls w @ [(GetRepo token uuid, Some e)]"
        using Inl by (simp add: failure_def)
      with that(2) [of e] Inl r st show ?thesis
        unfolding w' by blast
    next
      case (Inr repo)
      then have c1: "calls ?w1 = calls w @ [(GetRepo token uuid, None)]"
        by (simp add: failure_def)
      obtain rg w2 where g: "github_tier env uuid repo ?w1 = (rg, w2)"
        by (cases "github_tier env uuid repo ?w1")
      have good2: "good_node (nodes w2 (status_file uuid))"
        using g good1 by (rule github_tier_good)
      show ?thesis
      proof (cases rg)
        case e: (Inl e)
        with assms run Inr g have "r = Inl e" "w' = w2"
          by (simp_all add: bind_def)
        with that(3) [of repo ?w1 e] Inr st c1 g e show ?thesis
          by simp
      next
        case report: (Inr report)
        obtain rc w3 where c: "computed_tier env uuid repo w2 = (rc, w3)"
          by (cases "computed_tier env uuid repo w2")
        have good3: "good_node (nodes w3 (status_file uuid))"
          using c good2 by (rule computed_tier_good)
        show ?thesis
        proof (cases rc)
          case e: (Inl e)
          with assms run Inr g report c have "r = Inl e" "w' = w3"
            by (simp_all add: bind_def)
          with that(4) [of repo ?w1 report w2 e] Inr st c1 g report c e show ?thesis
            by simp
        next
          case data: (Inr repo_data)
          with assms run Inr g report c good3
          have "r = setitem repo_data ''github'' report"
            "w' = after_status env uuid None False w3"
            by (simp_all add: bind_def lift_def)
          moreover have "effect uuid w3 (after_status env uuid None False w3) [] [] {}"
            using good3 by (simp add: effect_def)
          ultimately show ?thesis
            using that(5) [of repo ?w1 report w2 repo_data w3] Inr st c1 g report c data
            by simp
        qed
      qed
    qed
  qed
qed

section \<open>The tiers, every outcome\<close>

lemma github_tier_all_cases [consumes 2, case_names loaded unreadable directory raw_failed
    issues_failed stargazers_failed produced]:
  assumes "github_tier env uuid repo w = (r, w')"
    and "good_node (nodes w (status_file uuid))"
  obtains
    report where "nodes w (github_cache uuid) = Some (File (Doc report))" "r = Inr report"
      "effect uuid w w' [''Load GitHub API data from ephemeral cache''] [] {}"
  | e where "nodes w (github_cache uuid) = Some (File (Unreadable e))" "r = Inl e"
      "effect uuid w w' [''Load GitHub API data from ephemeral cache''] [] {}"
  | "nodes w (github_cache uuid) = Some Dir" "r = Inl IsADirectoryError"
      "effect uuid w w' [''Load GitHub API data from ephemeral cache''] [] {}"
  | e where "nodes w (github_cache uuid) = None" "r = Inl e"
      "effect uuid w w' [''Fetching GitHub API data''] [(RawData, Some e)] {}"
  | e where "nodes w (github_cache uuid) = None" "r = Inl e"
      "effect uuid w w' [''Fetching GitHub API data'', ''Fetching GitHub issues data'']
         [(RawData, None), (GetIssues ''all'' (utcnow env (ticks w + 4) - days 30), Some e)] {}"
  | e where "nodes w (github_cache uuid) = None" "r = Inl e"
      "effect uuid w w' [''Fetching GitHub API data'', ''Fetching GitHub issues data'',
           ''Fetching GitHub stargazer data'']
         [(RawData, None), (GetIssues ''all'' (utcnow env (ticks w + 4) - days 30), None),
          (GetStargazers, Some e)] {}"
  | raw issues sd where "nodes w (github_cache uuid) = None"
      "r = Inr (report_of raw issues sd)"
      "nodes w' (github_cache uuid) = Some (File (Doc (report_of raw issues sd)))"
      "effect uuid w w' [''Fetching GitHub API data'', ''Fetching GitHub issues data'',
           ''Fetching GitHub stargazer data'']
         [(RawData, None), (GetIssues ''all'' (utcnow env (ticks w + 4) - days 30), None),
          (GetStargazers, None)]
         {github_cache uuid}"
  using assms
proof (cases rule: github_tier_cases)
  case miss
  from miss(2) assms(2) miss(1) show ?thesis
    by (cases rule: produce_report_cases) (use miss(1) that(4-7) in blast)+
qed (use that(1-3) in blast)+

lemma computed_tier_all_cases [consumes 2, case_names loaded unreadable directory open_failed
    fetch_failed clone_failed analysis_failed_updated analysis_failed_cloned
    produced_updated produced_cloned]:
  assumes "computed_tier env uuid repo w = (r, w')"
    and "good_node (nodes w (status_file uuid))"
  obtains
    repo_data where "nodes w (computed_cache uuid) = Some (File (Doc repo_data))"
      "r = Inr repo_data" "effect uuid w w' [''Load commit from ephemeral cache''] [] {}"
  | e where "nodes w (computed_cache uuid) = Some (File (Unreadable e))" "r = Inl e"
      "effect uuid w w' [''Load commit from ephemeral cache''] [] {}"
  | "nodes w (computed_cache uuid) = Some Dir" "r = Inl IsADirectoryError"
      "effect uuid w w' [''Load commit from ephemeral cache''] [] {}"
  | e where "nodes w (computed_cache uuid) = None" "nodes w (target uuid) \<noteq> None" "r = Inl e"
      "effect uuid w w' [''Fetching remotes from cached clone'']
         [(OpenRepo (target uuid), Some e)] {}"
  | e where "nodes w (computed_cache uuid) = None" "nodes w (target uuid) \<noteq> None" "r = Inl e"
      "effect uuid w w' [''Fetching remotes from cached clone'']
         [(OpenRepo (target uuid), None), (FetchRemotes, Some e)] {}"
  | e where "nodes w (computed_cache uuid) = None" "nodes w (target uuid) = None" "r = Inl e"
      "effect uuid w w' [''Cloning repo'']
         [(CloneFrom (clone_url repo) (target uuid), Some e)] {}"
  | e where "nodes w (computed_cache uuid) = None" "nodes w (target uuid) \<noteq> None" "r = Inl e"
      "effect uuid w w' [''Fetching remotes from cached clone'', ''Analysing commits'']
         [(OpenRepo (target uuid), None), (FetchRemotes, None), (Commits, Some e)] {}"
  | e where "nodes w (computed_cache uuid) = None" "nodes w (target uuid) = None" "r = Inl e"
      "nodes w' (target uuid) = Some Dir"
      "effect uuid w w' [''Cloning repo'', ''Analysing commits'']
         [(CloneFrom (clone_url repo) (target uuid), None), (Commits, Some e)] {target uuid}"
  | repo_data where "nodes w (computed_cache uuid) = None" "nodes w (target uuid) \<noteq> None"
      "r = Inr repo_data" "nodes w' (computed_cache uuid) = Some (File (Doc repo_data))"
      "effect uuid w w' [''Fetching remotes from cached clone'', ''Analysing commits'']
         [(OpenRepo (target uuid), None), (FetchRemotes, None), (Commits, None)]
         {computed_cache uuid}"
  | repo_data where "nodes w (computed_cache uuid) = None" "nodes w (target uuid) = None"
      "r = Inr repo_data" "nodes w' (computed_cache uuid) = Some (File (Doc repo_data))"
      "nodes w' (target uuid) = Some Dir"
      "effect uuid w w' [''Cloning repo'', ''Analysing commits'']
         [(CloneFrom (clone_url repo) (target uuid), None), (Commits, None)]
         {computed_cache uuid, target uuid}"
  using assms
proof (cases rule: computed_tier_cases)
  case (mirror_failed e)
  from mirror_failed(2) assms(2) show ?thesis
    by (cases rule: mirror_cases) (use mirror_failed(1,3) that(4-6) in auto)
next
  case (analysis_failed loc w1 e)
  from analysis_failed(2) assms(2) show ?thesis
  proof (cases rule: mirror_cases)
    case (updated loc')
    from effect_trans [OF updated(5) analysis_failed(5)] updated(1) analysis_failed(1,4) that(7)
    show ?thesis by simp
  next
    case (cloned loc')
    from effect_trans [OF cloned(5) analysis_failed(5)] cloned(1,4)
      effect_nodes [OF analysis_failed(5), of "target uuid"] analysis_failed(1,4) that(8)
    show ?thesis by simp
  qed simp_all
next
  case (produced loc w1 repo_data)
  from produced(2) assms(2) show ?thesis
  proof (cases rule: mirror_cases)
    case (updated loc')
    from effect_trans [OF updated(5) produced(6)] updated(1) produced(1,4,5) that(9)
    show ?thesis by simp
  next
    case (cloned loc')
    from effect_trans [OF cloned(5) produced(6)] cloned(1,4)
      effect_nodes [OF produced(6), of "target uuid"] produced(1,4,5) that(10)
    show ?thesis by (simp add: insert_commute)
  qed simp_all
qed (use that(1-3) in blast)+

section \<open>What a tier logs, calls and writes\<close>

lemmas trace_defs = effect_def new_stages_def new_calls_def stage_log_def

lemma github_tier_trace:
  assumes "github_tier env uuid repo w = (r, w')"
    and "good_node (nodes w (status_file uuid))"
  shows "good_node (nodes w' (status_file uuid)) \<and>
    stage_log w' uuid = stage_log w uuid @ new_stages uuid w w' \<and>
    calls w' = calls w @ new_calls w w' \<and>
    prefix (new_stages uuid w w') (gh_stages (nodes w (github_cache uuid) \<noteq> None)) \<and>
    prefix (map fst (new_calls w w'))
      (gh_calls (nodes w (github_cache uuid) \<noteq> None) (utcnow env (ticks w + 4) - days 30)) \<and>
    (\<forall>x. r = Inr x \<longrightarrow>
       new_stages uuid w w' = gh_stages (nodes w (github_cache uuid) \<noteq> None) \<and>
       map fst (new_calls w w') =
         gh_calls (nodes w (github_cache uuid) \<noteq> None) (utcnow env (ticks w + 4) - days 30) \<and>
       list_all (\<lambda>c. snd c = None) (new_calls w w') \<and>
       nodes w' (github_cache uuid) = Some (File (Doc x)) \<and>
       (nodes w (github_cache uuid) \<noteq> None \<longrightarrow> nodes w (github_cache uuid) = Some (File (Doc x)))) \<and>
    (nodes w (github_cache uuid) \<noteq> None \<longrightarrow>
       nodes w' (github_cache uuid) = nodes w (github_cache uuid) \<and> new_calls w w' = []) \<and>
    nodes w' (computed_cache uuid) = nodes w (computed_cache uuid) \<and>
    nodes w' (target uuid) = nodes w (target uuid)"
  using assms
  by (cases rule: github_tier_all_cases)
    (simp_all add: trace_defs gh_stages_def gh_calls_def)

lemma computed_tier_trace:
  assumes "computed_tier env uuid repo w = (r, w')"
    and "good_node (nodes w (status_file uuid))"
  shows "good_node (nodes w' (status_file uuid)) \<and>
    stage_log w' uuid = stage_log w uuid @ new_stages uuid w w' \<and>
    calls w' = calls w @ new_calls w w' \<and>
    prefix (new_stages uuid w w')
      (an_stages (nodes w (computed_cache uuid) \<noteq> None) (nodes w (target uuid) \<noteq> None)) \<and>
    prefix (map fst (new_calls w w'))
      (an_calls (nodes w (computed_cache uuid) \<noteq> None) (nodes w (target uuid) \<noteq> None)
         (clone_url repo) (target uuid)) \<and>
    (\<forall>x. r = Inr x \<longrightarrow>
       new_stages uuid w w' =
         an_stages (nodes w (computed_cache uuid) \<noteq> None) (nodes w (target uuid) \<noteq> None) \<and>
       map fst (new_calls w w') =
         an_calls (nodes w (computed_cache uuid) \<noteq> None) (nodes w (target uuid) \<noteq> None)
           (clone_url repo) (target uuid) \<and>
       list_all (\<lambda>c. snd c = None) (new_calls w w') \<and>
       nodes w' (computed_cache uuid) = Some (File (Doc x)) \<and>
       (nodes w (computed_cache uuid) \<noteq> None \<longrightarrow>
          nodes w (computed_cache uuid) = Some (File (Doc x)))) \<and>
    (nodes w (computed_cache uuid) \<noteq> None \<longrightarrow>
       nodes w' (computed_cache uuid) = nodes w (computed_cache uuid) \<and> new_calls w w' = []) \<and>
    nodes w' (github_cache uuid) = nodes w (github_cache uuid)"
  using assms
  by (cases rule: computed_tier_all_cases)
    (simp_all add: trace_defs an_stages_def an_calls_def)


lemma github_tier_unreadable:
  assumes "github_tier env uuid repo w = (r, w')"
    and "good_node (nodes w (status_file uuid))"
  shows "(\<forall>e. nodes w (github_cache uuid) = Some (File (Unreadable e)) \<longrightarrow> r = Inl e) \<and>
    (\<forall>e x. r = Inl e \<longrightarrow> nodes w' (github_cache uuid) \<noteq> Some (File (Doc x))) \<and>
    (\<forall>x. nodes w (github_cache uuid) = Some (File (Doc x)) \<longrightarrow> r = Inr x)"
  using assms
  by (cases rule: github_tier_all_cases) (simp_all add: trace_defs)

lemma github_tier_produced:
  assumes "github_tier env uuid repo w = (r, w')"
    and "good_node (nodes w (status_file uuid))"
    and "nodes w (github_cache uuid) = None"
    and "nodes w' (github_cache uuid) = Some (File (Doc report))"
  shows "\<exists>raw issues sd. report = report_of raw issues sd \<and> r = Inr report \<and>
    new_calls w w' =
      [(RawData, None), (GetIssues ''all'' (utcnow env (ticks w + 4) - days 30), None),
       (GetStargazers, None)]"
  using assms
  by (cases rule: github_tier_all_cases) (auto simp: trace_defs)

lemma github_tier_sections:
  assumes "github_tier env uuid repo w = (Inr x, w')"
    and "good_node (nodes w (status_file uuid))"
    and "\<forall>report. nodes w (github_cache uuid) = Some (File (Doc report)) \<longrightarrow> has_sections report"
  shows "has_sections x"
  using assms
  by (cases rule: github_tier_all_cases) (auto simp: has_sections_def report_of_def)


lemma computed_tier_unreadable:
  assumes "computed_tier env uuid repo w = (r, w')"
    and "good_node (nodes w (status_file uuid))"
  shows "\<forall>e. nodes w (computed_cache uuid) = Some (File (Unreadable e)) \<longrightarrow> r = Inl e"
  using assms
  by (cases rule: computed_tier_all_cases) (simp_all add: trace_defs)

section \<open>Claims about the persisted layout and the status log\<close>

lemma log_invariant_iff: "log_invariant xs \<longleftrightarrow> list_all has_end (butlast xs)"
proof (cases xs rule: rev_cases)
  case Nil
  then show ?thesis by (simp add: log_invariant_def open_entries_def)
next
  case (snoc ys y)
  then show ?thesis
    by (auto simp: log_invariant_def open_entries_def filter_empty_conv list_all_iff)
qed

lemma has_end_update [simp]: "has_end (JDict (AList.update ''end'' t d))"
  by (simp add: has_end_def update_conv')

lemma log_invariant_close:
  "log_invariant xs \<Longrightarrow> log_invariant (butlast xs @ [JDict (AList.update ''end'' t d)])"
  by (simp add: log_invariant_iff)

lemma log_invariant_close_append:
  "log_invariant xs \<Longrightarrow> log_invariant (butlast xs @ [JDict (AList.update ''end'' t d), e])"
  by (simp add: log_invariant_iff butlast_append)

lemma log_invariant_small [simp]: "log_invariant []" "log_invariant [e]"
  by (simp_all add: log_invariant_iff)

lemmas path_defs = status_file_def github_cache_def computed_cache_def target_def path_join_def
  dirname_def rstrip_slash_def

text \<open>
  Claim C6. After every call of \<^verbatim>\<open>update_status\<close> (closing the previous entry, appending a new
  one, or resetting with \<^verbatim>\<open>clear=True\<close>), the status sequence persisted for the key has at most
  one entry without an \<^verbatim>\<open>end\<close> timestamp, and such an entry is the last one. It is an invariant:
  a call with \<^verbatim>\<open>clear=True\<close> establishes it whatever was persisted, any other call keeps it, and a
  call that raises leaves the file as it was. A call that returns leaves a sequence persisted.
\<close>

theorem update_status_keeps_invariant:
  assumes "update_status env uuid message clear w = (r, w')"
    and "clear \<or> log_ok w uuid"
  shows "log_ok w' uuid \<and> (r = Inr () \<longrightarrow> status_log w' uuid \<noteq> None)"
  using assms
  by (cases message)
    (auto simp: run_defs log_ok_def status_log_def entries_of_def
      log_invariant_close log_invariant_close_append
      split: option.splits node.splits content.splits json.splits if_splits)

theorem update_status_keeps_invariant_witness:
  "log_ok (snd (update_status demo_env ''acme/widgets'' (Some ''Cloning repo'') False logged_world))
     ''acme/widgets'' \<and>
   status_log (snd (update_status demo_env ''acme/widgets'' (Some ''Cloning repo'') False logged_world))
     ''acme/widgets'' \<noteq> None"
proof -
  let ?run = "update_status demo_env ''acme/widgets'' (Some ''Cloning repo'') False logged_world"
  have run: "?run = (fst ?run, snd ?run)"
    by simp
  have ok: "False \<or> log_ok logged_world ''acme/widgets''"
    by (simp add: log_ok_def status_log_def entries_of_def logged_world_def path_defs)
  have "fst ?run = Inr ()"
    by (simp add: run_defs logged_world_def path_defs)
  with update_status_keeps_invariant [OF run ok] show ?thesis
    by simp
qed




section \<open>Claims about the handlers\<close>

lemma availablitiy_present:
  assumes "datastore s uuid = Some f"
  shows "availablitiy env uuid token (s, h) =
    (case read_status (sys s) uuid of
       Inl e \<Rightarrow> (Inl e, s, h)
     | Inr status \<Rightarrow>
         if fut_done f
         then (Inr (JDict [(''status'', JNum 200), (''message'', JStr ''ready''),
                           (''status_info'', status)]), s, h)
         else (Inr (JDict [(''status'', JNum 202),
                           (''message'', JStr (''Job is still running and started '' @
                              pretty_timedelta env (start_time f)
                                (utcnow env (ticks (sys s))) @ ''.'')),
                           (''status_info'', status)]),
               s\<lparr>sys := tick (sys s)\<rparr>, h))"
  using assms by (simp add: availablitiy_def)

lemma availablitiy_absent:
  assumes "datastore s uuid = None"
  shows "availablitiy env uuid token (s, h) =
    (Inr (JDict [(''status'', JNum 202),
                 (''message'', JStr ''Job submitted and is processing.''),
                 (''status_info'', JList [])]),
     s\<lparr>datastore := (datastore s)(uuid \<mapsto>
          \<lparr>fut_args = (uuid, token), start_time = utcnow env (ticks (sys s)), outcome = None\<rparr>),
        executor := executor s @ [(uuid, token)],
        sys := tick (sys s)\<rparr>,
     set_status 202 h)"
  using assms by (simp add: availablitiy_def Let_def)

lemma registry_okD:
  "registry_ok s \<Longrightarrow> dispatched s k = (if datastore s k = None then 0 else 1)"
  by (simp add: registry_ok_def)

lemma dispatched_same: "executor s' = executor s \<Longrightarrow> dispatched s' k = dispatched s k"
  by (simp add: dispatched_def)

lemma dispatched_append:
  "executor s' = executor s @ [(u, t)] \<Longrightarrow>
     dispatched s' k = dispatched s k + (if u = k then 1 else 0)"
  by (simp add: dispatched_def)

lemma availablitiy_registry:
  assumes "availablitiy env uuid token (s, h) = (r, s', h')"
    and "registry_ok s"
  shows "registry_ok s'"
  unfolding registry_ok_def
proof
  fix k
  note ok = registry_okD [OF assms(2)]
  show "dispatched s' k = (if datastore s' k = None then 0 else 1)"
  proof (cases "datastore s uuid")
    case None
    with assms(1) have "executor s' = executor s @ [(uuid, token)]"
      and "datastore s' k = None \<longleftrightarrow> datastore s k = None \<and> k \<noteq> uuid"
      by (auto simp: availablitiy_absent split: if_splits)
    with dispatched_append [of s' s uuid token k] ok [of k] ok [of uuid] None show ?thesis
      by auto
  next
    case (Some f)
    with assms(1) have "executor s' = executor s" and "datastore s' = datastore s"
      by (auto simp: availablitiy_present split: sum.splits if_splits)
    with dispatched_same [of s' s k] ok [of k] show ?thesis
      by simp
  qed
qed

lemma available_post_registry:
  assumes "registry_ok s"
  shows "registry_ok (fst (snd (available_post env uuid token (s, h))))"
proof -
  obtain r s' h' where a:
    "availablitiy env uuid token (s, set_header ''Content-Type'' ''application/json'' h) = (r, s', h')"
    by (metis prod_cases3)
  from availablitiy_registry [OF a assms] a show ?thesis
    by (simp add: available_post_def split: sum.splits json.splits)
qed

lemma data_post_registry:
  assumes "registry_ok s"
  shows "registry_ok (fst (snd (data_post env uuid token (s, h))))"
proof -
  obtain r s' h' where a:
    "availablitiy env uuid token (s, set_header ''Content-Type'' ''application/json'' h) = (r, s', h')"
    by (metis prod_cases3)
  from availablitiy_registry [OF a assms] a show ?thesis
    by (simp add: data_post_def resp_def split: sum.splits json.splits option.splits)
qed

lemma worker_finish_registry:
  assumes "registry_ok s"
  shows "registry_ok (worker_finish env uuid s)"
  unfolding registry_ok_def
proof
  fix k
  have "executor (worker_finish env uuid s) = executor s"
    and "datastore (worker_finish env uuid s) k = None \<longleftrightarrow> datastore s k = None"
    by (auto simp: worker_finish_def split: option.splits prod.splits)
  with dispatched_same [of "worker_finish env uuid s" s k] registry_okD [OF assms, of k]
  show "dispatched (worker_finish env uuid s) k =
      (if datastore (worker_finish env uuid s) k = None then 0 else 1)"
    by simp
qed

lemma step_registry: "registry_ok s \<Longrightarrow> registry_ok (step env s ev)"
  by (cases ev)
    (simp_all add: step_def available_post_registry data_post_registry worker_finish_registry)

lemma steps_registry: "registry_ok s \<Longrightarrow> registry_ok (foldl (step env) s evs)"
  by (induction evs arbitrary: s) (simp_all add: step_registry)

lemma new_server_registry: "registry_ok (new_server w)"
  by (simp add: registry_ok_def new_server_def dispatched_def)

text \<open>
  Claim C1. Over the lifetime of the datastore, whatever requests arrive and whatever jobs
  finish in between, every key has been dispatched to the executor at most once (once exactly
  when it is in the datastore). A call of \<^verbatim>\<open>availablitiy\<close> for a key already in the datastore
  leaves the executor and the datastore as they are, whatever token it carries, and its answer
  is about the existing future: status 200 when the future is done and 202 otherwise, with the
  status log as read from the status file (the exception of \<^verbatim>\<open>json.load\<close> instead, when that
  file exists and cannot be read).
\<close>

theorem one_dispatch_per_key:
  "dispatched (foldl (step env) (new_server w) evs) k \<le> 1 \<and>
   (datastore s uuid = Some f \<longrightarrow>
      executor (fst (snd (availablitiy env uuid token (s, h)))) = executor s \<and>
      datastore (fst (snd (availablitiy env uuid token (s, h)))) = datastore s \<and>
      (\<forall>log. read_status (sys s) uuid = Inr log \<longrightarrow>
         (\<exists>message. fst (availablitiy env uuid token (s, h)) =
            Inr (JDict [(''status'', JNum (if fut_done f then 200 else 202)),
                        (''message'', JStr message), (''status_info'', log)]))) \<and>
      (\<forall>e. read_status (sys s) uuid = Inl e \<longrightarrow>
         fst (availablitiy env uuid token (s, h)) = Inl e))"
proof -
  have "registry_ok (foldl (step env) (new_server w) evs)"
    using new_server_registry by (rule steps_registry)
  then have "dispatched (foldl (step env) (new_server w) evs) k \<le> 1"
    by (simp add: registry_ok_def)
  then show ?thesis
    by (auto simp: availablitiy_present split: sum.splits)
qed

theorem one_dispatch_per_key_witness:
  "dispatched (foldl (step demo_env) (new_server empty_world)
      [Request ''acme/widgets'' (Some ''t0k3n''), Request ''acme/widgets'' (Some ''other''),
       Data ''acme/widgets'' None]) ''acme/widgets'' \<le> 1 \<and>
   executor (fst (snd (availablitiy demo_env ''acme/widgets'' (Some ''other'')
      (failed_server, new_handler)))) = executor failed_server \<and>
   datastore (fst (snd (availablitiy demo_env ''acme/widgets'' (Some ''other'')
      (failed_server, new_handler)))) = datastore failed_server \<and>
   (\<exists>message log. fst (availablitiy demo_env ''acme/widgets'' (Some ''other'')
      (failed_server, new_handler)) =
        Inr (JDict [(''status'', JNum 200), (''message'', JStr message), (''status_info'', log)]))"
proof -
  let ?f = "\<lparr>fut_args = (''acme/widgets'', Some ''t0k3n''), start_time = 1500000000,
             outcome = Some (Inl (Raised ''analysis failed''))\<rparr>"
  let ?log = "JList [JDict [(''start'', JStr ''2017-07-14T02:40:00Z''),
                            (''status'', JStr ''Initial validation of repo'')]]"
  have present: "datastore failed_server ''acme/widgets'' = Some ?f"
    by (simp add: failed_server_def)
  have log: "read_status (sys failed_server) ''acme/widgets'' = Inr ?log"
    by (simp add: read_status_def failed_server_def logged_world_def path_exists_def
        json_load_def path_defs)
  have d: "fut_done ?f"
    by (simp add: fut_done_def)
  from one_dispatch_per_key [of demo_env empty_world
      "[Request ''acme/widgets'' (Some ''t0k3n''), Request ''acme/widgets'' (Some ''other''),
        Data ''acme/widgets'' None]" "''acme/widgets''" failed_server
      "''acme/widgets''" ?f "Some ''other''" new_handler] present log d
  show ?thesis
    by auto
qed

text \<open>
  Claim C4, as the code has it. A query for a key that was never submitted never fails and
  answers 202 with an empty stage sequence, but it is not a pure read: it is the submission.
  It dispatches one pipeline execution for the key, with the token of this request, and stores
  the running future in the datastore. The files and the other keys are left as they are.
\<close>

theorem first_query_submits:
  assumes "datastore s uuid = None"
  shows "\<exists>s' h' f.
    availablitiy env uuid token (s, h) =
      (Inr (JDict [(''status'', JNum 202),
                   (''message'', JStr ''Job submitted and is processing.''),
                   (''status_info'', JList [])]), s', h') \<and>
    executor s' = executor s @ [(uuid, token)] \<and>
    datastore s' = (datastore s)(uuid \<mapsto> f) \<and> outcome f = None \<and> fut_args f = (uuid, token) \<and>
    nodes (sys s') = nodes (sys s) \<and> calls (sys s') = calls (sys s)"
  using assms
  by (simp add: availablitiy_absent) (intro exI conjI, rule refl, simp_all)

theorem first_query_submits_witness:
  "\<exists>s' h' f.
    availablitiy demo_env ''acme/widgets'' (Some ''t0k3n'') (new_server empty_world, new_handler) =
      (Inr (JDict [(''status'', JNum 202),
                   (''message'', JStr ''Job submitted and is processing.''),
                   (''status_info'', JList [])]), s', h') \<and>
    executor s' = [(''acme/widgets'', Some ''t0k3n'')] \<and>
    datastore s' = [''acme/widgets'' \<mapsto> f] \<and> outcome f = None"
proof -
  have "datastore (new_server empty_world) ''acme/widgets'' = None"
    by (simp add: new_server_def)
  from first_query_submits [OF this, of demo_env "Some ''t0k3n''" new_handler]
  show ?thesis
    by (auto simp: new_server_def)
qed

text \<open>
  Claim C4 as stated fails: the query for the unknown key \<^verbatim>\<open>acme/widgets\<close> changes the worker
  pool and the job registry. The executor is given a job and the datastore gains the key.
\<close>

theorem status_query_not_pure_counterexample:
  "executor (new_server empty_world) = [] \<and>
   datastore (new_server empty_world) ''acme/widgets'' = None \<and>
   executor (fst (snd (availablitiy demo_env ''acme/widgets'' (Some ''t0k3n'')
      (new_server empty_world, new_handler)))) = [(''acme/widgets'', Some ''t0k3n'')] \<and>
   datastore (fst (snd (availablitiy demo_env ''acme/widgets'' (Some ''t0k3n'')
      (new_server empty_world, new_handler)))) ''acme/widgets'' \<noteq> None"
  by (simp add: new_server_def availablitiy_def Let_def)

text \<open>
  Claim C5 at a job that failed. \<^verbatim>\<open>resp\<close> builds the error response, with the message and the
  traceback of the stored exception, and returns it; \<^verbatim>\<open>post\<close> drops the returned value. Nothing
  is given to \<^verbatim>\<open>self.finish\<close> and the status stays 200: the caller is sent no error.
\<close>

theorem failed_job_error_not_sent:
  "fst (resp demo_env ''acme/widgets'' None (failed_server, new_handler)) =
     Inr (Some (JDict [(''status'', JNum 500), (''message'', JStr ''analysis failed''),
                       (''traceback'', JStr ''Traceback (most recent call last): ...'')])) \<and>
   data_post demo_env ''acme/widgets'' None (failed_server, new_handler) =
     (Inr (), failed_server,
      \<lparr>status_code = 200, headers = [(''Content-Type'', ''application/json'')], body = None\<rparr>)"
  by (simp add: data_post_def resp_def availablitiy_def failed_server_def read_status_def
      logged_world_def path_exists_def json_load_def path_defs fut_done_def getitem_def
      set_header_def new_handler_def demo_env_def)

section \<open>Claims about the pipeline\<close>


lemma stage_log_dir: "nodes w (status_file uuid) = Some Dir \<Longrightarrow> stage_log w uuid = []"
  by (simp add: stage_log_def stages_of_def entries_of_def)

lemma new_calls_append: "calls w' = calls w @ cs \<Longrightarrow> new_calls w w' = cs"
  by (simp add: new_calls_def)

lemma startedD:
  assumes "started uuid token w w1"
  shows "good_node (nodes w1 (status_file uuid))"
    and "stage_log w1 uuid = [''Initial validation of repo'']"
    and "ticks w1 = Suc (ticks w)"
    and "nodes w1 (github_cache uuid) = nodes w (github_cache uuid)"
    and "nodes w1 (computed_cache uuid) = nodes w (computed_cache uuid)"
    and "(nodes w1 (target uuid) \<noteq> None) = (path_exists w (target uuid) \<or> made_mirror uuid w)"
    and "nodes w (status_file uuid) \<noteq> Some Dir"
  using assms by (simp_all add: started_def stage_log_def path_exists_def)

lemma started_clock:
  assumes "started uuid token w w1"
  shows "utcnow env (ticks w1 + 4) = utcnow env (ticks w + 5)"
proof -
  have "ticks w1 + 4 = ticks w + 5"
    using assms by (simp add: started_def)
  then show ?thesis
    by (simp only:)
qed

lemma github_tier_traceE:
  assumes "github_tier env uuid repo w = (r, w')"
    and "good_node (nodes w (status_file uuid))"
  obtains msgs cs where
    "good_node (nodes w' (status_file uuid))"
    "stage_log w' uuid = stage_log w uuid @ msgs"
    "calls w' = calls w @ cs"
    "prefix msgs (gh_stages (nodes w (github_cache uuid) \<noteq> None))"
    "prefix (map fst cs)
       (gh_calls (nodes w (github_cache uuid) \<noteq> None) (utcnow env (ticks w + 4) - days 30))"
    "\<And>x. r = Inr x \<Longrightarrow>
       msgs = gh_stages (nodes w (github_cache uuid) \<noteq> None) \<and>
       map fst cs =
         gh_calls (nodes w (github_cache uuid) \<noteq> None) (utcnow env (ticks w + 4) - days 30) \<and>
       nodes w' (github_cache uuid) = Some (File (Doc x)) \<and>
       (nodes w (github_cache uuid) \<noteq> None \<longrightarrow> nodes w (github_cache uuid) = Some (File (Doc x)))"
    "nodes w (github_cache uuid) \<noteq> None \<Longrightarrow>
       nodes w' (github_cache uuid) = nodes w (github_cache uuid) \<and> cs = []"
    "nodes w' (computed_cache uuid) = nodes w (computed_cache uuid)"
    "nodes w' (target uuid) = nodes w (target uuid)"
  using github_tier_trace [OF assms] that [of "new_stages uuid w w'" "new_calls w w'"]
  by blast

lemma computed_tier_traceE:
  assumes "computed_tier env uuid repo w = (r, w')"
    and "good_node (nodes w (status_file uuid))"
  obtains msgs cs where
    "good_node (nodes w' (status_file uuid))"
    "stage_log w' uuid = stage_log w uuid @ msgs"
    "calls w' = calls w @ cs"
    "prefix msgs
       (an_stages (nodes w (computed_cache uuid) \<noteq> None) (nodes w (target uuid) \<noteq> None))"
    "prefix (map fst cs)
       (an_calls (nodes w (computed_cache uuid) \<noteq> None) (nodes w (target uuid) \<noteq> None)
          (clone_url repo) (target uuid))"
    "\<And>x. r = Inr x \<Longrightarrow>
       msgs = an_stages (nodes w (computed_cache uuid) \<noteq> None) (nodes w (target uuid) \<noteq> None) \<and>
       map fst cs =
         an_calls (nodes w (computed_cache uuid) \<noteq> None) (nodes w (target uuid) \<noteq> None)
           (clone_url repo) (target uuid) \<and>
       nodes w' (computed_cache uuid) = Some (File (Doc x)) \<and>
       (nodes w (computed_cache uuid) \<noteq> None \<longrightarrow>
          nodes w (computed_cache uuid) = Some (File (Doc x)))"
    "nodes w (computed_cache uuid) \<noteq> None \<Longrightarrow>
       nodes w' (computed_cache uuid) = nodes w (computed_cache uuid) \<and> cs = []"
    "nodes w' (github_cache uuid) = nodes w (github_cache uuid)"
  using computed_tier_trace [OF assms] that [of "new_stages uuid w w'" "new_calls w w'"]
  by blast

lemma gh_calls_producers: "list_all github_producer (gh_calls hit since)"
  by (simp add: gh_calls_def github_producer_def)

lemma an_calls_producers: "list_all analysis_producer (an_calls hit mir url dir)"
  by (simp add: an_calls_def analysis_producer_def)

lemma prefix_list_all: "prefix xs ys \<Longrightarrow> list_all P ys \<Longrightarrow> list_all P xs"
  by (auto simp: prefix_def)

lemma producers_disjoint:
  "list_all github_producer (map fst cs) \<Longrightarrow> list_all (\<lambda>c. \<not> analysis_producer (fst c)) cs"
  "list_all analysis_producer (map fst cs) \<Longrightarrow> list_all (\<lambda>c. \<not> github_producer (fst c)) cs"
  by (auto simp: list_all_iff github_producer_def analysis_producer_def split: call.splits)

lemma identity_no_producer [simp]:
  "\<not> github_producer (GetRepo token uuid)" "\<not> analysis_producer (GetRepo token uuid)"
  by (simp_all add: github_producer_def analysis_producer_def)




lemma analysis_load_not_logged:
  assumes "prefix msgs (gh_stages hit)"
  shows "''Load commit from ephemeral cache'' \<notin> set msgs"
proof -
  have "set msgs \<subseteq> set (gh_stages hit)"
    using assms by (rule set_mono_prefix)
  then show ?thesis
    by (auto simp: gh_stages_def split: if_splits)
qed

text \<open>
  Claim C2, as the code has it. A cache artifact that exists and cannot be read makes the load
  raise: by \<^verbatim>\<open>json.load\<close> when the text is not JSON (\<open>JSONDecodeError\<close>), or while the bytes are
  decoded (\<open>UnicodeDecodeError\<close>). Nothing is produced again in its place: in every run the file
  is left as it is, the producers of its tier are not called and the run does not succeed, and
  every run that reaches the load (it logs the cache-load stage of the tier) fails with the
  exception of the load as the error of the job. For the GitHub artifact that is every run in
  which the status file can be written and the repository is resolved; for the analysis
  artifact every such run that has the GitHub artifact, loaded or produced, when it ends.
\<close>

theorem corrupt_artifact_fails_run:
  assumes run: "fetch_repo_data env uuid token w = (r, w')"
  shows "(\<forall>e. nodes w (github_cache uuid) = Some (File (Unreadable e)) \<longrightarrow>
       nodes w' (github_cache uuid) = Some (File (Unreadable e)) \<and>
       list_all (\<lambda>c. \<not> github_producer (fst c)) (new_calls w w') \<and>
       (\<forall>payload. r \<noteq> Inr payload) \<and>
       (''Load GitHub API data from ephemeral cache'' \<in> set (stage_log w' uuid) \<longrightarrow> r = Inl e) \<and>
       (nodes w (status_file uuid) \<noteq> Some Dir \<and> (\<exists>repo. get_repo env token uuid = Inr repo) \<longrightarrow>
          r = Inl e \<and> map fst (new_calls w w') = [GetRepo token uuid])) \<and>
    (\<forall>e. nodes w (computed_cache uuid) = Some (File (Unreadable e)) \<longrightarrow>
       nodes w' (computed_cache uuid) = Some (File (Unreadable e)) \<and>
       list_all (\<lambda>c. \<not> analysis_producer (fst c)) (new_calls w w') \<and>
       (\<forall>payload. r \<noteq> Inr payload) \<and>
       (''Load commit from ephemeral cache'' \<in> set (stage_log w' uuid) \<longrightarrow> r = Inl e) \<and>
       (nodes w (status_file uuid) \<noteq> Some Dir \<and> (\<exists>repo. get_repo env token uuid = Inr repo) \<and>
        (\<exists>report. nodes w' (github_cache uuid) = Some (File (Doc report))) \<longrightarrow> r = Inl e))"
  using run
proof (cases rule: fetch_repo_data_cases)
  case status_is_dir
  then show ?thesis
    by (simp add: stage_log_dir new_calls_def)
next
  case (identity_failed e)
  note st = startedD [OF identity_failed(3)]
  from identity_failed st show ?thesis
    by (simp add: new_calls_append)
next
  case (github_failed repo' w1 e)
  note st = startedD [OF github_failed(2)]
  from github_failed(4) st(1) obtain msgs cs where g:
    "stage_log w' uuid = stage_log w1 uuid @ msgs"
    "calls w' = calls w1 @ cs"
    "prefix msgs (gh_stages (nodes w1 (github_cache uuid) \<noteq> None))"
    "prefix (map fst cs)
       (gh_calls (nodes w1 (github_cache uuid) \<noteq> None) (utcnow env (ticks w1 + 4) - days 30))"
    "nodes w1 (github_cache uuid) \<noteq> None \<Longrightarrow>
       nodes w' (github_cache uuid) = nodes w1 (github_cache uuid) \<and> cs = []"
    "nodes w' (computed_cache uuid) = nodes w1 (computed_cache uuid)"
    by (rule github_tier_traceE) blast
  have calls: "new_calls w w' = (GetRepo token uuid, None) # cs"
    using g(2) github_failed(3) by (simp add: new_calls_def)
  have log: "stage_log w' uuid = ''Initial validation of repo'' # msgs"
    using g(1) st(2) by simp
  have cs: "list_all (\<lambda>c. \<not> analysis_producer (fst c)) cs"
    using prefix_list_all [OF g(4) gh_calls_producers] by (rule producers_disjoint)
  from github_tier_unreadable [OF github_failed(4) st(1)] g(5,6) cs st(4,5) github_failed(5)
    analysis_load_not_logged [OF g(3)]
  show ?thesis
    unfolding calls log by auto
next
  case (computed_failed repo' w1 report w2 e)
  note st = startedD [OF computed_failed(2)]
  from computed_failed(4) st(1) obtain msgs cs where g:
    "good_node (nodes w2 (status_file uuid))" "calls w2 = calls w1 @ cs"
    "prefix (map fst cs)
       (gh_calls (nodes w1 (github_cache uuid) \<noteq> None) (utcnow env (ticks w1 + 4) - days 30))"
    "nodes w2 (computed_cache uuid) = nodes w1 (computed_cache uuid)"
    by (rule github_tier_traceE) blast
  from computed_failed(5) g(1) obtain msgs' cs' where c:
    "calls w' = calls w2 @ cs'"
    "nodes w2 (computed_cache uuid) \<noteq> None \<Longrightarrow>
       nodes w' (computed_cache uuid) = nodes w2 (computed_cache uuid) \<and> cs' = []"
    by (rule computed_tier_traceE) blast
  have calls: "new_calls w w' = (GetRepo token uuid, None) # cs @ cs'"
    using g(2) c(1) computed_failed(3) by (simp add: new_calls_def)
  have cs: "list_all (\<lambda>c. \<not> analysis_producer (fst c)) cs"
    using prefix_list_all [OF g(3) gh_calls_producers] by (rule producers_disjoint)
  from github_tier_unreadable [OF computed_failed(4) st(1)]
    computed_tier_unreadable [OF computed_failed(5) g(1)] g(4) c(2) cs st(4,5) computed_failed(6)
  show ?thesis
    unfolding calls by auto
next
  case (finished repo' w1 report w2 repo_data w3)
  note st = startedD [OF finished(2)]
  from finished(4) st(1) obtain msgs cs where g:
    "good_node (nodes w2 (status_file uuid))"
    "nodes w2 (computed_cache uuid) = nodes w1 (computed_cache uuid)"
    by (rule github_tier_traceE) blast
  from github_tier_unreadable [OF finished(4) st(1)]
    computed_tier_unreadable [OF finished(5) g(1)] g(2) st(4,5)
  show ?thesis
    by auto
qed

lemma setitem_dict:
  assumes "setitem j k v = Inr p"
  obtains d where "j = JDict d" "p = JDict (AList.update k v d)"
  using assms by (cases j) (simp_all add: setitem_def)

lemma data_post_done:
  assumes "datastore s uuid = Some f"
    and "outcome f = Some (Inr payload)"
    and "good_node (nodes (sys s) (status_file uuid))"
  shows "data_post env uuid token (s, h) =
    (Inr (), s,
     finish (JDict [(''status'', JNum 200), (''content'', payload)])
       (set_header ''Content-Type'' ''application/json'' h))"
  using assms
  by (auto simp: data_post_def resp_def availablitiy_present read_status_def path_exists_def
      json_load_def good_node_def fut_done_def getitem_def)

text \<open>
  Claim C9. When the job of a key runs and the pipeline succeeds, the result query answers
  status 200 with the payload of the run as its content. The payload is the analysis document
  persisted as the analysis artifact (the derived commit statistics), every key of it but
  \<^verbatim>\<open>github\<close> unchanged, with the report of the GitHub tier under \<^verbatim>\<open>github\<close>, and that report has the
  sections \<^verbatim>\<open>repo\<close>, \<^verbatim>\<open>issues\<close> and \<^verbatim>\<open>stargazers\<close>. A GitHub artifact already on disk is taken to
  be one the pipeline wrote, which has the three sections; the artifact the run leaves is the
  report, so the next run finds one with the three sections again.
\<close>

theorem successful_run_payload:
  assumes job: "datastore s uuid = Some f" "outcome f = None" "fut_args f = (uuid, token)"
    and run: "fetch_repo_data env uuid token (sys s) = (Inr payload, w')"
    and cache: "\<forall>report. nodes (sys s) (github_cache uuid) = Some (File (Doc report)) \<longrightarrow>
      has_sections report"
  shows "body (snd (snd (data_post env uuid token' (worker_finish env uuid s, new_handler)))) =
      Some (JDict [(''status'', JNum 200), (''content'', payload)]) \<and>
    (\<exists>d report repo_data.
       payload = JDict d \<and> map_of d ''github'' = Some report \<and> has_sections report \<and>
       nodes w' (computed_cache uuid) = Some (File (Doc (JDict repo_data))) \<and>
       nodes w' (github_cache uuid) = Some (File (Doc report)) \<and>
       (\<forall>k. k \<noteq> ''github'' \<longrightarrow> map_of d k = map_of repo_data k))"
  using run
proof (cases rule: fetch_repo_data_cases)
  case (finished repo w1 report w2 repo_data w3)
  note st = startedD [OF finished(2)]
  from finished(4) st(1) obtain msgs cs where g: "good_node (nodes w2 (status_file uuid))"
    "nodes w2 (github_cache uuid) = Some (File (Doc report))"
    by (rule github_tier_traceE) blast
  from finished(5) g(1) obtain msgs' cs' where c:
    "nodes w3 (computed_cache uuid) = Some (File (Doc repo_data))"
    "nodes w3 (github_cache uuid) = nodes w2 (github_cache uuid)"
    by (rule computed_tier_traceE) blast
  have sections: "has_sections report"
    using finished(4) st(1) cache unfolding st(4) [symmetric] by (rule github_tier_sections)
  have last: "good_node (nodes w' (status_file uuid))"
    "nodes w' (computed_cache uuid) = nodes w3 (computed_cache uuid)"
    "nodes w' (github_cache uuid) = nodes w3 (github_cache uuid)"
    using finished(7) by (simp_all add: effect_def)
  from finished(6) have "setitem repo_data ''github'' report = Inr payload"
    by simp
  then obtain d where d: "repo_data = JDict d"
    "payload = JDict (AList.update ''github'' report d)"
    by (rule setitem_dict)
  let ?s = "worker_finish env uuid s"
  have s: "?s = s\<lparr>datastore := (datastore s)(uuid \<mapsto> f\<lparr>outcome := Some (Inr payload)\<rparr>), sys := w'\<rparr>"
    using job run by (simp add: worker_finish_def)
  have "data_post env uuid token' (?s, new_handler) =
    (Inr (), ?s,
     finish (JDict [(''status'', JNum 200), (''content'', payload)])
       (set_header ''Content-Type'' ''application/json'' new_handler))"
    using last(1) by (intro data_post_done [where f = "f\<lparr>outcome := Some (Inr payload)\<rparr>"])
      (simp_all add: s)
  then show ?thesis
    using sections last(2,3) c g(2) d by (simp add: finish_def update_conv')
qed simp_all

text \<open>
  Claim C10. In a run that finds no GitHub artifact and persists one, the \<^verbatim>\<open>issues\<close> section of
  the persisted document is a list of at most 5 issues, and issues were queried once, with
  \<^verbatim>\<open>state='all'\<close> and \<^verbatim>\<open>since\<close> 30 days (of 24 hours) before the clock reading taken for the query,
  which is the sixth reading of the run.
\<close>

theorem issues_limited_and_recent:
  assumes run: "fetch_repo_data env uuid token w = (r, w')"
    and miss: "nodes w (github_cache uuid) = None"
    and written: "nodes w' (github_cache uuid) = Some (File (Doc report))"
  shows "\<exists>issues.
    getitem report ''issues'' = Inr (JList issues) \<and> length issues \<le> 5 \<and>
    (GetIssues ''all'' (utcnow env (ticks w + 5) - days 30), None) \<in> set (new_calls w w') \<and>
    (\<forall>state since out. (GetIssues state since, out) \<in> set (new_calls w w') \<longrightarrow>
       state = ''all'' \<and> since = utcnow env (ticks w + 5) - days 30) \<and>
    days 30 = 30 * 24 * 60 * 60"
proof -
  have tail: ?thesis
    if st: "started uuid token w w1"
      and c1: "calls w1 = calls w @ [(GetRepo token uuid, None)]"
      and g: "github_tier env uuid repo w1 = (Inr report', w2)"
      and c: "calls w' = calls w2 @ cs'" "list_all analysis_producer (map fst cs')"
        "nodes w' (github_cache uuid) = nodes w2 (github_cache uuid)"
    for repo w1 report' w2 cs'
  proof -
    note sd = startedD [OF st]
    from g sd(1) obtain msgs cs where t: "calls w2 = calls w1 @ cs"
      by (rule github_tier_traceE)
    from github_tier_produced [OF g sd(1), of report] miss written sd(4) c(3)
    obtain raw issues sd' where p: "report = report_of raw issues sd'"
      "new_calls w1 w2 =
        [(RawData, None), (GetIssues ''all'' (utcnow env (ticks w1 + 4) - days 30), None),
         (GetStargazers, None)]"
      by auto
    have calls: "new_calls w w' =
        (GetRepo token uuid, None) # (RawData, None) #
        (GetIssues ''all'' (utcnow env (ticks w + 5) - days 30), None) # (GetStargazers, None) # cs'"
      using p(2) t c(1) c1 started_clock [OF st, of env] by (simp add: new_calls_def)
    have "\<not> analysis_producer (GetIssues state since)" for state since
      by (simp add: analysis_producer_def)
    with c(2) have none: "(GetIssues state since, out) \<notin> set cs'" for state since out
      by (force simp: list_all_iff)
    show ?thesis
      unfolding calls p(1)
      by (intro exI [of _ "take limit issues"])
        (simp add: report_of_def getitem_def limit_def days_def none)
  qed
  from run show ?thesis
  proof (cases rule: fetch_repo_data_cases)
    case status_is_dir
    with miss written show ?thesis by simp
  next
    case (identity_failed e)
    with miss written startedD(4) [OF identity_failed(3)] show ?thesis by simp
  next
    case (github_failed repo w1 e)
    from github_tier_unreadable [OF github_failed(4) startedD(1) [OF github_failed(2)]] written
    show ?thesis by simp
  next
    case (computed_failed repo w1 report' w2 e)
    from computed_failed(4) startedD(1) [OF computed_failed(2)]
    obtain msgs cs where g: "good_node (nodes w2 (status_file uuid))"
      by (rule github_tier_traceE)
    from computed_failed(5) g obtain msgs' cs' where c:
      "calls w' = calls w2 @ cs'"
      "prefix (map fst cs')
         (an_calls (nodes w2 (computed_cache uuid) \<noteq> None) (nodes w2 (target uuid) \<noteq> None)
            (clone_url repo) (target uuid))"
      "nodes w' (github_cache uuid) = nodes w2 (github_cache uuid)"
      by (rule computed_tier_traceE) blast
    from computed_failed(2,3,4) c(1) prefix_list_all [OF c(2) an_calls_producers] c(3)
    show ?thesis by (rule tail)
  next
    case (finished repo w1 report' w2 repo_data w3)
    from finished(4) startedD(1) [OF finished(2)]
    obtain msgs cs where g: "good_node (nodes w2 (status_file uuid))"
      by (rule github_tier_traceE)
    from finished(5) g obtain msgs' cs' where c:
      "calls w3 = calls w2 @ cs'"
      "prefix (map fst cs')
         (an_calls (nodes w2 (computed_cache uuid) \<noteq> None) (nodes w2 (target uuid) \<noteq> None)
            (clone_url repo) (target uuid))"
      "nodes w3 (github_cache uuid) = nodes w2 (github_cache uuid)"
      by (rule computed_tier_traceE) blast
    have last: "calls w' = calls w3" "nodes w' (github_cache uuid) = nodes w3 (github_cache uuid)"
      using finished(7) by (simp_all add: effect_def)
    from finished(2,3,4) c(1) [folded last(1)] prefix_list_all [OF c(2) an_calls_producers]
      c(3) [folded last(2)]
    show ?thesis by (rule tail)
  qed
qed

section \<open>The pipeline on concrete inputs\<close>

lemma demo_places:
  "locate ''ephemeral_storage/acme'' = [''ephemeral_storage'', ''acme'']"
  "locate ''ephemeral_storage/acme/widgets'' = [''ephemeral_storage'', ''acme'', ''widgets'']"
  "locate ''ephemeral_storage/acme/widgets.status.json'' =
     [''ephemeral_storage'', ''acme'', ''widgets.status.json'']"
  "locate ''ephemeral_storage/acme/widgets.github.json'' =
     [''ephemeral_storage'', ''acme'', ''widgets.github.json'']"
  "locate ''ephemeral_storage/acme/widgets_computed.json'' =
     [''ephemeral_storage'', ''acme'', ''widgets_computed.json'']"
  by (simp_all add: locate_def named_def)

lemmas eval_defs = fetch_repo_data_def github_tier_def produce_report_def computed_tier_def
  mirror_def clone_run_def run_defs path_defs setitem_def getitem_def failure_def
  stargazers_of_def stargazer_entry_def limit_def days_def
  demo_env_def demo_repo_def demo_local_def failing_env_def demo_places

lemma demo_cached_payload:
  "fst (fetch_repo_data demo_env ''acme/widgets'' None cached_world) = Inr demo_payload"
  by (simp add: eval_defs cached_world_def demo_report_def demo_payload_def)


lemma demo_fresh_cache:
  "nodes (snd (fetch_repo_data demo_env ''acme/widgets'' None empty_world))
     (github_cache ''acme/widgets'') =
   Some (File (Doc (JDict
     [(''repo'', JDict [(''full_name'', JStr ''acme/widgets'')]),
      (''issues'', JList [JNum 1, JNum 2, JNum 3, JNum 4, JNum 5]),
      (''stargazers'', JList [JDict [(''starred_at'', JStr ''2017-07-01T00:00:00Z''),
                                     (''login'', JStr ''ann'')]])])))"
  by (simp add: eval_defs empty_world_def)

lemma cached_world_nodes:
  "nodes cached_world (github_cache ''acme/widgets'') = Some (File (Doc demo_report))"
  "nodes cached_world (computed_cache ''acme/widgets'') = None"
  "nodes cached_world (target ''acme/widgets'') = None"
  "nodes cached_world (status_file ''acme/widgets'') = None"
  by (simp_all add: cached_world_def path_defs)



text \<open>
  The routes hand over any text as the key, the empty one too. Its files are
  \<^verbatim>\<open>ephemeral_storage/.status.json\<close> and so on, and its mirror path \<^verbatim>\<open>ephemeral_storage/\<close> is the
  storage directory itself, which lines 85 to 88 have made when the mirror is looked for: on
  an empty storage the run takes the mirror for a clone and updates it.
\<close>

lemma empty_key_places:
  "locate ''ephemeral_storage'' = [''ephemeral_storage'']"
  "locate ''ephemeral_storage/'' = [''ephemeral_storage'']"
  "locate ''ephemeral_storage/.status.json'' = [''ephemeral_storage'', ''.status.json'']"
  "locate ''ephemeral_storage/.github.json'' = [''ephemeral_storage'', ''.github.json'']"
  "locate ''ephemeral_storage/_computed.json'' = [''ephemeral_storage'', ''_computed.json'']"
  by (simp_all add: locate_def named_def)

lemma empty_key_updates_mirror:
  "target [] = ''ephemeral_storage/'' \<and>
   dirname (github_cache []) = ''ephemeral_storage'' \<and>
   stage_log (snd (fetch_repo_data demo_env [] None empty_world)) [] =
     [''Initial validation of repo'', ''Fetching GitHub API data'',
      ''Fetching GitHub issues data'', ''Fetching GitHub stargazer data'',
      ''Fetching remotes from cached clone'', ''Analysing commits''] \<and>
   map fst (calls (snd (fetch_repo_data demo_env [] None empty_world))) =
     [GetRepo None [], RawData, GetIssues ''all'' 1497408005, GetStargazers,
      OpenRepo ''ephemeral_storage/'', FetchRemotes, Commits]"
  by (simp add: eval_defs empty_key_places empty_world_def stage_log_def stages_of_def
      entries_of_def stage_name_def)


lemma demo_undecodable_log:
  "''Load commit from ephemeral cache'' \<in>
     set (stage_log (snd (fetch_repo_data demo_env ''acme/widgets'' None undecodable_world))
       ''acme/widgets'')"
  by (simp add: eval_defs undecodable_world_def stage_log_def stages_of_def entries_of_def
      stage_name_def)

theorem corrupt_artifact_fails_run_witness:
  "fst (fetch_repo_data demo_env ''acme/widgets'' None corrupt_world) = Inl JSONDecodeError \<and>
   nodes (snd (fetch_repo_data demo_env ''acme/widgets'' None corrupt_world))
     (github_cache ''acme/widgets'') = Some (File (Unreadable JSONDecodeError)) \<and>
   map fst (new_calls corrupt_world
       (snd (fetch_repo_data demo_env ''acme/widgets'' None corrupt_world))) =
     [GetRepo None ''acme/widgets''] \<and>
   fst (fetch_repo_data demo_env ''acme/widgets'' None undecodable_world) =
     Inl UnicodeDecodeError \<and>
   nodes (snd (fetch_repo_data demo_env ''acme/widgets'' None undecodable_world))
     (computed_cache ''acme/widgets'') = Some (File (Unreadable UnicodeDecodeError)) \<and>
   list_all (\<lambda>c. \<not> analysis_producer (fst c))
     (new_calls undecodable_world
        (snd (fetch_repo_data demo_env ''acme/widgets'' None undecodable_world)))"
proof -
  let ?run = "fetch_repo_data demo_env ''acme/widgets'' None corrupt_world"
  let ?run' = "fetch_repo_data demo_env ''acme/widgets'' None undecodable_world"
  have run: "?run = (fst ?run, snd ?run)" and run': "?run' = (fst ?run', snd ?run')"
    by simp_all
  have status: "nodes corrupt_world (status_file ''acme/widgets'') \<noteq> Some Dir"
    and unreadable: "nodes corrupt_world (github_cache ''acme/widgets'') =
      Some (File (Unreadable JSONDecodeError))"
    and undecodable: "nodes undecodable_world (computed_cache ''acme/widgets'') =
      Some (File (Unreadable UnicodeDecodeError))"
    by (simp_all add: corrupt_world_def undecodable_world_def path_defs)
  have identity: "\<exists>repo. get_repo demo_env None ''acme/widgets'' = Inr repo"
    by (simp add: demo_env_def)
  from corrupt_artifact_fails_run [OF run] status unreadable identity
  have "fst ?run = Inl JSONDecodeError \<and>
    nodes (snd ?run) (github_cache ''acme/widgets'') = Some (File (Unreadable JSONDecodeError)) \<and>
    map fst (new_calls corrupt_world (snd ?run)) = [GetRepo None ''acme/widgets'']"
    by blast
  moreover from corrupt_artifact_fails_run [OF run'] undecodable demo_undecodable_log
  have "fst ?run' = Inl UnicodeDecodeError \<and>
    nodes (snd ?run') (computed_cache ''acme/widgets'') =
      Some (File (Unreadable UnicodeDecodeError)) \<and>
    list_all (\<lambda>c. \<not> analysis_producer (fst c)) (new_calls undecodable_world (snd ?run'))"
    by blast
  ultimately show ?thesis
    by blast
qed

text \<open>
  Claim C2 as stated fails. With an unparseable GitHub artifact on disk the run does not
  treat it as a miss: nothing is produced again (the only call made is the one that resolves
  the repository), the file stays as it is, and the run ends with the parse error.
\<close>

theorem corrupt_artifact_surfaces_counterexample:
  "nodes corrupt_world (github_cache ''acme/widgets'') =
     Some (File (Unreadable JSONDecodeError)) \<and>
   fst (fetch_repo_data demo_env ''acme/widgets'' None corrupt_world) = Inl JSONDecodeError \<and>
   map fst (calls (snd (fetch_repo_data demo_env ''acme/widgets'' None corrupt_world))) =
     [GetRepo None ''acme/widgets''] \<and>
   nodes (snd (fetch_repo_data demo_env ''acme/widgets'' None corrupt_world))
     (github_cache ''acme/widgets'') = Some (File (Unreadable JSONDecodeError))"
  by (simp add: eval_defs corrupt_world_def)

theorem successful_run_payload_witness:
  "body (snd (snd (data_post demo_env ''acme/widgets'' None
      (worker_finish demo_env ''acme/widgets'' running_server, new_handler)))) =
     Some (JDict [(''status'', JNum 200), (''content'', demo_payload)]) \<and>
   (\<exists>d report repo_data.
      demo_payload = JDict d \<and> map_of d ''github'' = Some report \<and> has_sections report \<and>
      nodes (snd (fetch_repo_data demo_env ''acme/widgets'' None cached_world))
        (computed_cache ''acme/widgets'') = Some (File (Doc (JDict repo_data))) \<and>
      nodes (snd (fetch_repo_data demo_env ''acme/widgets'' None cached_world))
        (github_cache ''acme/widgets'') = Some (File (Doc report)) \<and>
      (\<forall>k. k \<noteq> ''github'' \<longrightarrow> map_of d k = map_of repo_data k))"
proof -
  let ?run = "fetch_repo_data demo_env ''acme/widgets'' None (sys running_server)"
  let ?f = "\<lparr>fut_args = (''acme/widgets'', None), start_time = 1500000000, outcome = None\<rparr>"
  have sys: "sys running_server = cached_world"
    by (simp add: running_server_def)
  have job: "datastore running_server ''acme/widgets'' = Some ?f" "outcome ?f = None"
    "fut_args ?f = (''acme/widgets'', None)"
    by (simp_all add: running_server_def)
  have run: "?run = (Inr demo_payload, snd ?run)"
    using demo_cached_payload by (simp add: prod_eq_iff sys)
  have cache: "\<forall>report. nodes (sys running_server) (github_cache ''acme/widgets'') =
      Some (File (Doc report)) \<longrightarrow> has_sections report"
    by (simp add: sys cached_world_nodes has_sections_def demo_report_def)
  from successful_run_payload [OF job run cache, of None] show ?thesis
    by (simp add: sys)
qed

theorem issues_limited_and_recent_witness:
  "\<exists>issues.
     getitem (JDict
       [(''repo'', JDict [(''full_name'', JStr ''acme/widgets'')]),
        (''issues'', JList [JNum 1, JNum 2, JNum 3, JNum 4, JNum 5]),
        (''stargazers'', JList [JDict [(''starred_at'', JStr ''2017-07-01T00:00:00Z''),
                                       (''login'', JStr ''ann'')]])]) ''issues'' =
       Inr (JList issues) \<and>
     length issues \<le> 5 \<and>
     (GetIssues ''all'' (1500000005 - 30 * 24 * 60 * 60), None) \<in>
       set (new_calls empty_world
         (snd (fetch_repo_data demo_env ''acme/widgets'' None empty_world)))"
proof -
  let ?run = "fetch_repo_data demo_env ''acme/widgets'' None empty_world"
  have run: "?run = (fst ?run, snd ?run)"
    by simp
  have miss: "nodes empty_world (github_cache ''acme/widgets'') = None"
    by (simp add: empty_world_def)
  have clock: "utcnow demo_env (ticks empty_world + 5) = 1500000005"
    by (simp add: demo_env_def empty_world_def)
  from issues_limited_and_recent [OF run miss demo_fresh_cache] show ?thesis
    unfolding clock by (auto simp: days_def)
qed

end
